theory Spec2Isabelle
  imports Complex_Main "HOL-Library.Log_Nat"
begin

section \<open>Dataset preparation: sliding windows and time blocks\<close>

text \<open>
  A shallow embedding of \<^verbatim>\<open>MLTrader/prepare_dataset/prepare.py\<close>.
  A data frame is the list of its rows; a timestamp is an integer number of milliseconds
  since the epoch (the unit the file is read in); a three-dimensional numeric array is its
  list of entries along axis 0 together with the two trailing dimensions of its shape, so
  that an empty array still has a shape. A price cell is an integer or a float64; a float64
  is given by the rational number it denotes.
\<close>

subsection \<open>Constants\<close>

definition SPLIT_PER_DAY :: int where
  "SPLIT_PER_DAY = 23"

definition TRAINING_DAY :: int where
  "TRAINING_DAY = 20"

definition VALIDATION_DAY :: int where
  "VALIDATION_DAY = SPLIT_PER_DAY - TRAINING_DAY"

definition BAR_PER_DATAPOINT :: nat where
  "BAR_PER_DATAPOINT = 2 * 24 * (60 div 15)"

definition OUTPUT_BAR_PER_DATAPOINT :: nat where
  "OUTPUT_BAR_PER_DATAPOINT = 4 * (60 div 15)"

definition INPUT_BAR_PER_DATAPOINT :: nat where
  "INPUT_BAR_PER_DATAPOINT = BAR_PER_DATAPOINT - OUTPUT_BAR_PER_DATAPOINT"

definition DIMENSION_PER_BAR :: nat where
  "DIMENSION_PER_BAR = 4"

text \<open>\<^verbatim>\<open>pd.Timedelta(days=d)\<close>, in milliseconds.\<close>

definition Timedelta :: "int \<Rightarrow> int" where
  "Timedelta d = d * 86400000"

subsection \<open>Data\<close>

text \<open>
  A cell of a numeric column, as \<^verbatim>\<open>df.values\<close> hands it over: the integer of
  an \<^verbatim>\<open>int64\<close> column, or the finite float64 of a \<^verbatim>\<open>float64\<close>
  column, given by its exact value.
\<close>

datatype cell = IntCell int | FloatCell rat

type_synonym float64 = rat

text \<open>
  One row of the frame: column 0 is \<^verbatim>\<open>OpenTime\<close>, column 1 is
  \<^verbatim>\<open>CloseTime\<close>, columns 2 to 5 are the four prices that
  \<^verbatim>\<open>df.values[:, 2:6]\<close> reads, named as the comment at
  \<^verbatim>\<open>DIMENSION_PER_BAR\<close> names them.
\<close>

record bar =
  open_time :: int
  close_time :: int
  p_open :: cell
  p_close :: cell
  p_high :: cell
  p_low :: cell

text \<open>
  An array of shape \<open>[N, d1, d2]\<close>: \<open>dims\<close> is \<open>(d1, d2)\<close>, \<open>elems\<close> holds the
  \<open>N\<close> entries along axis 0, each a list of rows.
\<close>

record 'p ndarray =
  dims :: "nat \<times> nat"
  elems :: "'p list list list"

definition shape :: "'p ndarray \<Rightarrow> nat \<times> nat \<times> nat" where
  "shape a = (length (elems a), fst (dims a), snd (dims a))"

record 'p Dataset =
  X :: "'p ndarray"
  Y :: "'p ndarray"

datatype py_error = TypeError | ValueError | OverflowError

text \<open>
  The values \<^verbatim>\<open>sliding_window_sample_datapoints\<close> returns: the empty list
  literal \<^verbatim>\<open>[]\<close> or a \<^verbatim>\<open>Dataset\<close>.
\<close>

datatype 'p py_value = PyEmptyList | PyDataset "'p Dataset"

text \<open>What \<^verbatim>\<open>Dataset.__add__\<close> returns.\<close>

datatype 'p add_result = NotImplemented | Returned "'p Dataset"

subsection \<open>Dataset and its addition\<close>

text \<open>
  \<^verbatim>\<open>np.concatenate((a, b), axis=0)\<close> on three-dimensional arrays: the trailing
  dimensions must agree, otherwise numpy raises \<^verbatim>\<open>ValueError\<close>.
\<close>

definition np_concatenate :: "'p ndarray \<Rightarrow> 'p ndarray \<Rightarrow> py_error + 'p ndarray" where
  "np_concatenate a b =
     (if dims a = dims b then Inr \<lparr>dims = dims a, elems = elems a @ elems b\<rparr>
      else Inl ValueError)"

text \<open>\<^verbatim>\<open>np.empty((0, d1, d2))\<close>.\<close>

definition np_empty :: "nat \<Rightarrow> nat \<Rightarrow> 'p ndarray" where
  "np_empty d1 d2 = \<lparr>dims = (d1, d2), elems = []\<rparr>"

definition Dataset_add :: "'p Dataset \<Rightarrow> 'p py_value \<Rightarrow> py_error + 'p add_result" where
  "Dataset_add self other =
     (case other of
        PyEmptyList \<Rightarrow> Inr NotImplemented
      | PyDataset d \<Rightarrow>
          (case np_concatenate (X self) (X d) of
             Inl e \<Rightarrow> Inl e
           | Inr x \<Rightarrow>
               (case np_concatenate (Y self) (Y d) of
                  Inl e \<Rightarrow> Inl e
                | Inr y \<Rightarrow> Inr (Returned \<lparr>X = x, Y = y\<rparr>))))"

text \<open>
  The expression \<^verbatim>\<open>self + other\<close> with a \<^verbatim>\<open>Dataset\<close> on the left:
  Python calls \<^verbatim>\<open>Dataset.__add__\<close>; on \<^verbatim>\<open>NotImplemented\<close> it would try
  the right operand's \<^verbatim>\<open>__radd__\<close>, which a list does not have, and raises
  \<^verbatim>\<open>TypeError\<close>.
\<close>

definition py_add :: "'p Dataset \<Rightarrow> 'p py_value \<Rightarrow> py_error + 'p Dataset" where
  "py_add self other =
     (case Dataset_add self other of
        Inl e \<Rightarrow> Inl e
      | Inr NotImplemented \<Rightarrow> Inl TypeError
      | Inr (Returned d) \<Rightarrow> Inr d)"

definition empty_dataset :: "'p Dataset" where
  "empty_dataset =
     \<lparr>X = np_empty INPUT_BAR_PER_DATAPOINT DIMENSION_PER_BAR,
      Y = np_empty OUTPUT_BAR_PER_DATAPOINT DIMENSION_PER_BAR\<rparr>"

subsection \<open>The window sampler\<close>

text \<open>The columns 2 to 5 of one row: \<^verbatim>\<open>values[:, 2:6]\<close>.\<close>

definition prices :: "bar \<Rightarrow> cell list" where
  "prices b = [p_open b, p_close b, p_high b, p_low b]"

text \<open>
  The conversion of an integer to float64, as \<^verbatim>\<open>astype(np.float64)\<close> does it:
  the nearest number with a significand of 53 bits, a tie going to the even significand.
  The integers of an \<^verbatim>\<open>int64\<close> column are far below the largest float64.
\<close>

definition float64_of_int :: "int \<Rightarrow> float64" where
  "float64_of_int n =
     (let a = \<bar>n\<bar>;
          e = nat (bitlen a - 53);
          q = a div 2 ^ e;
          r = a mod 2 ^ e;
          q' = (if 2 ^ e < 2 * r \<or> (2 * r = 2 ^ e \<and> odd q) then q + 1 else q)
      in of_int (sgn n * (q' * 2 ^ e)))"

definition astype_float64 :: "cell \<Rightarrow> float64" where
  "astype_float64 c = (case c of IntCell n \<Rightarrow> float64_of_int n | FloatCell x \<Rightarrow> x)"

text \<open>
  \<^verbatim>\<open>df.values[:, 2:6].reshape((1, -1, DIMENSION_PER_BAR)).astype(np.float64)\<close>:
  one entry along axis 0, holding one row of four float64 prices per bar.
\<close>

definition extract_open_close_high_low :: "bar list \<Rightarrow> float64 ndarray" where
  "extract_open_close_high_low df =
     \<lparr>dims = (length df, DIMENSION_PER_BAR),
      elems = [map (\<lambda>b. map astype_float64 (prices b)) df]\<rparr>"

text \<open>\<^verbatim>\<open>df.iloc[a:b]\<close> for \<open>0 \<le> a\<close> and \<open>0 \<le> b\<close>.\<close>

definition iloc :: "'a list \<Rightarrow> nat \<Rightarrow> nat \<Rightarrow> 'a list" where
  "iloc df a b = take (b - a) (drop a df)"

text \<open>\<^verbatim>\<open>range(start, stop, step)\<close> for a positive step.\<close>

function py_range :: "nat \<Rightarrow> nat \<Rightarrow> nat \<Rightarrow> nat list" where
  "py_range start stop step =
     (if step = 0 \<or> stop \<le> start then []
      else start # py_range (start + step) stop step)"
  by pat_completeness auto
termination
  by (relation "measure (\<lambda>(start, stop, step). stop - start)") auto

declare py_range.simps [simp del]

text \<open>The body of the \<^verbatim>\<open>for\<close> loop, run over the indices of the range.\<close>

fun sample_loop :: "bar list \<Rightarrow> nat list \<Rightarrow> float64 Dataset \<Rightarrow> py_error + float64 Dataset" where
  "sample_loop df [] dataset = Inr dataset"
| "sample_loop df (start_idx # rest) dataset =
     (let data_point = iloc df start_idx (start_idx + BAR_PER_DATAPOINT);
          input_data = extract_open_close_high_low (take INPUT_BAR_PER_DATAPOINT data_point);
          output_data = extract_open_close_high_low (drop INPUT_BAR_PER_DATAPOINT data_point)
      in case py_add dataset (PyDataset \<lparr>X = input_data, Y = output_data\<rparr>) of
           Inl e \<Rightarrow> Inl e
         | Inr d \<Rightarrow> sample_loop df rest d)"

definition sliding_window_sample_datapoints :: "bar list \<Rightarrow> py_error + float64 py_value" where
  "sliding_window_sample_datapoints df =
     (if length df < BAR_PER_DATAPOINT then Inr PyEmptyList
      else
        (case sample_loop df (py_range 0 (length df - BAR_PER_DATAPOINT + 1) 3) empty_dataset of
           Inl e \<Rightarrow> Inl e
         | Inr d \<Rightarrow> Inr (PyDataset d)))"

subsection \<open>The time-block partitioner\<close>

text \<open>
  The instants a Python \<^verbatim>\<open>datetime\<close> holds, from 0001-01-01 00:00:00 to
  9999-12-31 23:59:59.999, in milliseconds since the epoch.
\<close>

definition datetime_range :: "int \<Rightarrow> bool" where
  "datetime_range t \<longleftrightarrow> - 62135596800000 \<le> t \<and> t \<le> 253402300799999"

text \<open>
  \<^verbatim>\<open>ms.to_pydatetime()\<close>: outside the range of \<^verbatim>\<open>datetime\<close> the conversion
  raises \<^verbatim>\<open>ValueError\<close>. \<^verbatim>\<open>NaT\<close> (here \<open>None\<close>) converts to itself.
\<close>

definition ms_timestamp_to_datetime :: "int option \<Rightarrow> py_error + int option" where
  "ms_timestamp_to_datetime ms =
     (case ms of
        None \<Rightarrow> Inr None
      | Some t \<Rightarrow> (if datetime_range t then Inr (Some t) else Inl ValueError))"

text \<open>
  The sum of a \<^verbatim>\<open>datetime\<close> and a \<^verbatim>\<open>pd.Timedelta\<close>, which is a
  \<^verbatim>\<open>datetime.timedelta\<close>: Python's own addition, again a \<^verbatim>\<open>datetime\<close>,
  which raises \<^verbatim>\<open>OverflowError\<close> when the sum leaves the range.
\<close>

definition datetime_add :: "int \<Rightarrow> int \<Rightarrow> py_error + int" where
  "datetime_add t d = (if datetime_range (t + d) then Inr (t + d) else Inl OverflowError)"

text \<open>
  \<^verbatim>\<open>Series.min()\<close> and \<^verbatim>\<open>Series.max()\<close> of a timestamp column:
  \<^verbatim>\<open>NaT\<close> (here \<open>None\<close>) on an empty column.
\<close>

fun series_min :: "int list \<Rightarrow> int option" where
  "series_min [] = None"
| "series_min (t # ts) = Some (fold min ts t)"

fun series_max :: "int list \<Rightarrow> int option" where
  "series_max [] = None"
| "series_max (t # ts) = Some (fold max ts t)"

text \<open>The two boolean-mask selections of one block, lines 77 to 83.\<close>

definition training_df :: "bar list \<Rightarrow> int \<Rightarrow> bar list" where
  "training_df df current_date =
     (let training_start = current_date;
          training_end = current_date + Timedelta TRAINING_DAY
      in filter (\<lambda>b. open_time b \<ge> training_start \<and> close_time b < training_end) df)"

definition validation_df :: "bar list \<Rightarrow> int \<Rightarrow> bar list" where
  "validation_df df current_date =
     (let validation_start = current_date + Timedelta TRAINING_DAY;
          validation_end = current_date + Timedelta SPLIT_PER_DAY
      in filter (\<lambda>b. open_time b \<ge> validation_start \<and> close_time b < validation_end) df)"

text \<open>
  One pass through the body of the \<^verbatim>\<open>while\<close> loop, lines 77 to 87, before the
  cursor moves: the training sum is evaluated first, and an exception there leaves the
  validation slice unsampled.
\<close>

definition process_block ::
  "bar list \<Rightarrow> int \<Rightarrow> float64 Dataset \<Rightarrow> float64 Dataset \<Rightarrow>
     py_error + (float64 Dataset \<times> float64 Dataset)" where
  "process_block df current_date training_data validation_data =
     (case sliding_window_sample_datapoints (training_df df current_date) of
        Inl e \<Rightarrow> Inl e
      | Inr sampled_training \<Rightarrow>
          (case py_add training_data sampled_training of
             Inl e \<Rightarrow> Inl e
           | Inr training_data' \<Rightarrow>
               (case sliding_window_sample_datapoints (validation_df df current_date) of
                  Inl e \<Rightarrow> Inl e
                | Inr sampled_validation \<Rightarrow>
                    (case py_add validation_data sampled_validation of
                       Inl e \<Rightarrow> Inl e
                     | Inr validation_data' \<Rightarrow> Inr (training_data', validation_data')))))"

text \<open>
  The \<^verbatim>\<open>while\<close> loop of \<^verbatim>\<open>split_train_validation\<close>. The guard adds 23
  days to the cursor, which can overflow; once the guard holds, the sums in the body and the
  step of the cursor are at most that sum and cannot.
\<close>

function walk ::
  "bar list \<Rightarrow> int \<Rightarrow> int \<Rightarrow> float64 Dataset \<Rightarrow> float64 Dataset \<Rightarrow>
     py_error + (float64 Dataset \<times> float64 Dataset)" where
  "walk df end_date current_date training_data validation_data =
     (case datetime_add current_date (Timedelta SPLIT_PER_DAY) of
        Inl e \<Rightarrow> Inl e
      | Inr block_end \<Rightarrow>
          (if block_end \<le> end_date then
             (case process_block df current_date training_data validation_data of
                Inl e \<Rightarrow> Inl e
              | Inr (training_data', validation_data') \<Rightarrow>
                  walk df end_date block_end training_data' validation_data')
           else Inr (training_data, validation_data)))"
  by pat_completeness auto
termination
  by (relation "measure (\<lambda>(df, end_date, current_date, t, v). nat (end_date - current_date))")
     (auto simp: datetime_add_def Timedelta_def SPLIT_PER_DAY_def split: if_splits)

declare walk.simps [simp del]

text \<open>
  \<^verbatim>\<open>split_train_validation\<close> after the file is read and its timestamps
  converted, lines 66 to 93. On an empty frame both extremes are \<^verbatim>\<open>NaT\<close>; adding a
  \<^verbatim>\<open>Timedelta\<close> to \<^verbatim>\<open>NaT\<close> gives \<^verbatim>\<open>NaT\<close> and every comparison
  with \<^verbatim>\<open>NaT\<close> is false, so the loop body never runs.
\<close>

definition split_train_validation ::
  "bar list \<Rightarrow> py_error + (float64 Dataset \<times> float64 Dataset)" where
  "split_train_validation df =
     (case ms_timestamp_to_datetime (series_min (map open_time df)) of
        Inl e \<Rightarrow> Inl e
      | Inr start_date \<Rightarrow>
          (case ms_timestamp_to_datetime (series_max (map close_time df)) of
             Inl e \<Rightarrow> Inl e
           | Inr end_date \<Rightarrow>
               (case (start_date, end_date) of
                  (Some current_date, Some end_date') \<Rightarrow>
                    walk df end_date' current_date empty_dataset empty_dataset
                | _ \<Rightarrow> Inr (empty_dataset, empty_dataset))))"

subsection \<open>Notions used to state the properties\<close>

text \<open>
  The shape of a Dataset that \<^verbatim>\<open>empty_dataset()\<close> can be added to: \<open>X\<close> is
  \<open>[N, 176, 4]\<close>, as the comment at the field says, and \<open>Y\<close> is \<open>[N, 16, 4]\<close>.
\<close>

definition valid_shape :: "'p Dataset \<Rightarrow> bool" where
  "valid_shape d \<longleftrightarrow>
     dims (X d) = (INPUT_BAR_PER_DATAPOINT, DIMENSION_PER_BAR) \<and>
     dims (Y d) = (OUTPUT_BAR_PER_DATAPOINT, DIMENSION_PER_BAR)"

text \<open>Inputs and outputs come in pairs: \<open>len(X) == len(Y)\<close>.\<close>

definition paired :: "'p Dataset \<Rightarrow> bool" where
  "paired d \<longleftrightarrow> length (elems (X d)) = length (elems (Y d))"

text \<open>The number of samples of a sampler result; \<^verbatim>\<open>len([])\<close> is 0.\<close>

definition num_samples :: "'p py_value \<Rightarrow> nat" where
  "num_samples r = (case r of PyEmptyList \<Rightarrow> 0 | PyDataset d \<Rightarrow> length (elems (X d)))"

definition window_count :: "nat \<Rightarrow> nat" where
  "window_count L = (if L < 192 then 0 else (L - 192) div 3 + 1)"

text \<open>The rows of the input part and of the output part of the window that starts at \<open>s\<close>.\<close>

definition input_rows :: "bar list \<Rightarrow> nat \<Rightarrow> float64 list list" where
  "input_rows df s = map (\<lambda>b. map astype_float64 (prices b)) (iloc df s (s + 176))"

definition output_rows :: "bar list \<Rightarrow> nat \<Rightarrow> float64 list list" where
  "output_rows df s = map (\<lambda>b. map astype_float64 (prices b)) (iloc df (s + 176) (s + 192))"

text \<open>The number a cell denotes, and the cells that float64 holds exactly.\<close>

definition cell_value :: "cell \<Rightarrow> rat" where
  "cell_value c = (case c of IntCell n \<Rightarrow> of_int n | FloatCell x \<Rightarrow> x)"

definition exact_cell :: "cell \<Rightarrow> bool" where
  "exact_cell c = (case c of IntCell n \<Rightarrow> \<bar>n\<bar> \<le> 2 ^ 53 | FloatCell x \<Rightarrow> True)"


text \<open>The samples of \<open>a\<close> followed by those of \<open>b\<close>, in \<open>X\<close> and in \<open>Y\<close>.\<close>

definition ds_append :: "'p Dataset \<Rightarrow> 'p Dataset \<Rightarrow> 'p Dataset" where
  "ds_append a b =
     \<lparr>X = \<lparr>dims = dims (X a), elems = elems (X a) @ elems (X b)\<rparr>,
      Y = \<lparr>dims = dims (Y a), elems = elems (Y a) @ elems (Y b)\<rparr>\<rparr>"

text \<open>
  The block schedule as the design describes it: blocks laid end to end from the start, one
  for every whole \<open>23\<close> days that fit before the end; and the fold of the loop body
  over a given list of block starts.
\<close>

definition block_cursors :: "int \<Rightarrow> int \<Rightarrow> int list" where
  "block_cursors start_date end_date =
     map (\<lambda>k. start_date + int k * Timedelta SPLIT_PER_DAY)
       [0..<nat ((end_date - start_date) div Timedelta SPLIT_PER_DAY)]"

fun fold_blocks ::
  "bar list \<Rightarrow> int list \<Rightarrow> float64 Dataset \<Rightarrow> float64 Dataset \<Rightarrow>
     py_error + (float64 Dataset \<times> float64 Dataset)" where
  "fold_blocks df [] tr va = Inr (tr, va)"
| "fold_blocks df (c # cs) tr va =
     (case process_block df c tr va of
        Inl e \<Rightarrow> Inl e
      | Inr (tr', va') \<Rightarrow> fold_blocks df cs tr' va')"

text \<open>The sample counts of the two results of the partitioner.\<close>

definition result_sizes :: "py_error + ('p Dataset \<times> 'p Dataset) \<Rightarrow> py_error + (nat \<times> nat)" where
  "result_sizes r = map_sum id (\<lambda>(tr, va). (length (elems (X tr)), length (elems (X va)))) r"

text \<open>
  Test data: \<open>n\<close> bars on a 15-minute grid from time 0, bar \<open>k\<close> opening at
  \<open>k \<times> 900000\<close> ms and closing \<open>len\<close> ms later, its four prices the integers
  \<open>k\<close>, \<open>k + 1\<close>, \<open>k + 2\<close> and \<open>k + 3\<close>.
\<close>

definition synthetic_bar :: "int \<Rightarrow> nat \<Rightarrow> bar" where
  "synthetic_bar len k =
     \<lparr>open_time = int k * 900000, close_time = int k * 900000 + len,
      p_open = IntCell (int k), p_close = IntCell (int k + 1),
      p_high = IntCell (int k + 2), p_low = IntCell (int k + 3)\<rparr>"

definition synthetic_bars :: "int \<Rightarrow> nat \<Rightarrow> bar list" where
  "synthetic_bars len n = map (synthetic_bar len) [0..<n]"

text \<open>
  Test data: 192 bars whose opening price is the integer \<open>2\<^sup>5\<^sup>3 + 1\<close>, the other
  prices 1; one bar that opens on 10000-01-01 and closes 1 ms later; and one bar that covers
  the last second of 9999-12-31.
\<close>

definition big_price_bars :: "bar list" where
  "big_price_bars =
     map (\<lambda>k. \<lparr>open_time = int k * 900000, close_time = int k * 900000 + 899999,
                p_open = IntCell 9007199254740993, p_close = IntCell 1,
                p_high = IntCell 1, p_low = IntCell 1\<rparr>) [0..<192]"

definition year_10000_bars :: "bar list" where
  "year_10000_bars =
     [\<lparr>open_time = 253402300800000, close_time = 253402300800001,
       p_open = IntCell 1, p_close = IntCell 1, p_high = IntCell 1, p_low = IntCell 1\<rparr>]"

definition year_9999_bars :: "bar list" where
  "year_9999_bars =
     [\<lparr>open_time = 253402300799000, close_time = 253402300799999,
       p_open = IntCell 1, p_close = IntCell 1, p_high = IntCell 1, p_low = IntCell 1\<rparr>]"

text \<open>Test data: a well-shaped Dataset of one sample, every value \<open>v\<close>.\<close>

definition unit_dataset :: "rat \<Rightarrow> rat Dataset" where
  "unit_dataset v =
     \<lparr>X = \<lparr>dims = (176, 4), elems = [replicate 176 (replicate 4 v)]\<rparr>,
      Y = \<lparr>dims = (16, 4), elems = [replicate 16 (replicate 4 v)]\<rparr>\<rparr>"

section \<open>Properties\<close>

subsection \<open>Constants and ranges\<close>

lemma BAR_192: "BAR_PER_DATAPOINT = 192" by (simp add: BAR_PER_DATAPOINT_def)

lemma OUT_16: "OUTPUT_BAR_PER_DATAPOINT = 16" by (simp add: OUTPUT_BAR_PER_DATAPOINT_def)

lemma IN_176: "INPUT_BAR_PER_DATAPOINT = 176"
  by (simp add: INPUT_BAR_PER_DATAPOINT_def BAR_192 OUT_16)

lemma map_upt_shift: "map f [0..<Suc m] = f 0 # map (\<lambda>k. f (Suc k)) [0..<m]"
proof -
  have "[0..<Suc m] = 0 # map Suc [0..<m]"
    by (simp add: upt_conv_Cons map_Suc_upt del: upt_Suc)
  then show ?thesis by (simp add: comp_def del: upt_Suc)
qed

lemma py_range_3: "py_range s stop 3 = map (\<lambda>k. s + 3 * k) [0..<(stop - s + 2) div 3]"
proof (induction s stop "3::nat" rule: py_range.induct)
  case (1 start stop)
  show ?case
  proof (cases "stop \<le> start")
    case True
    then show ?thesis by (simp add: py_range.simps)
  next
    case False
    then have n: "(stop - start + 2) div 3 = Suc ((stop - (start + 3) + 2) div 3)" by arith
    have "py_range start stop 3 = start # py_range (start + 3) stop 3"
      using False by (simp add: py_range.simps)
    also have "\<dots> = start # map (\<lambda>k. (start + 3) + 3 * k) [0..<(stop - (start + 3) + 2) div 3]"
      using 1 False by simp
    also have "\<dots> = map (\<lambda>k. start + 3 * k) [0..<(stop - start + 2) div 3]"
      unfolding n map_upt_shift by (simp add: add.assoc)
    finally show ?thesis .
  qed
qed

subsection \<open>The sampler\<close>

lemma py_add_valid:
  assumes "valid_shape a" "valid_shape b"
  shows "py_add a (PyDataset b) =
           Inr \<lparr>X = \<lparr>dims = dims (X a), elems = elems (X a) @ elems (X b)\<rparr>,
                Y = \<lparr>dims = dims (Y a), elems = elems (Y a) @ elems (Y b)\<rparr>\<rparr>"
  using assms by (simp add: py_add_def Dataset_add_def np_concatenate_def valid_shape_def)

lemma window_parts:
  assumes "s + 192 \<le> length df"
  shows "take 176 (iloc df s (s + 192)) = iloc df s (s + 176)"
    and "drop 176 (iloc df s (s + 192)) = iloc df (s + 176) (s + 192)"
    and "length (iloc df s (s + 176)) = 176"
    and "length (iloc df (s + 176) (s + 192)) = 16"
  using assms by (simp_all add: iloc_def drop_take add.commute)

lemma sample_loop_eq:
  assumes "\<forall>s\<in>set idxs. s + 192 \<le> length df" and "valid_shape d"
  shows "sample_loop df idxs d =
           Inr \<lparr>X = \<lparr>dims = (176, 4), elems = elems (X d) @ map (input_rows df) idxs\<rparr>,
                Y = \<lparr>dims = (16, 4), elems = elems (Y d) @ map (output_rows df) idxs\<rparr>\<rparr>"
  using assms
proof (induction idxs arbitrary: d)
  case Nil
  then show ?case
    by (simp add: valid_shape_def IN_176 OUT_16 DIMENSION_PER_BAR_def)
next
  case (Cons s idxs)
  then have s: "s + 192 \<le> length df" by simp
  let ?w = "\<lparr>X = extract_open_close_high_low (iloc df s (s + 176)),
             Y = extract_open_close_high_low (iloc df (s + 176) (s + 192))\<rparr>"
  let ?d = "\<lparr>X = \<lparr>dims = dims (X d), elems = elems (X d) @ elems (X ?w)\<rparr>,
             Y = \<lparr>dims = dims (Y d), elems = elems (Y d) @ elems (Y ?w)\<rparr>\<rparr>"
  have w: "valid_shape ?w"
    using window_parts(3,4)[OF s]
    by (simp add: valid_shape_def extract_open_close_high_low_def IN_176 OUT_16)
  have add: "py_add d (PyDataset ?w) = Inr ?d"
    using py_add_valid[OF Cons.prems(2) w] .
  have d': "valid_shape ?d"
    using Cons.prems(2) by (simp add: valid_shape_def)
  have step: "sample_loop df (s # idxs) d = sample_loop df idxs ?d"
    using add by (simp add: BAR_192 IN_176 window_parts(1,2)[OF s])
  have rest: "\<forall>s\<in>set idxs. s + 192 \<le> length df" using Cons.prems(1) by simp
  show ?case
    unfolding step Cons.IH[OF rest d']
    by (simp add: extract_open_close_high_low_def input_rows_def output_rows_def)
qed

lemma valid_shape_empty: "valid_shape empty_dataset"
  by (simp add: valid_shape_def empty_dataset_def np_empty_def)

lemma sliding_short:
  "length df < 192 \<Longrightarrow> sliding_window_sample_datapoints df = Inr PyEmptyList"
  by (simp add: sliding_window_sample_datapoints_def BAR_192)

lemma sliding_eq:
  assumes "192 \<le> length df"
  shows "sliding_window_sample_datapoints df =
           Inr (PyDataset
             \<lparr>X = \<lparr>dims = (176, 4),
                    elems = map (\<lambda>k. input_rows df (3 * k)) [0..<window_count (length df)]\<rparr>,
              Y = \<lparr>dims = (16, 4),
                    elems = map (\<lambda>k. output_rows df (3 * k)) [0..<window_count (length df)]\<rparr>\<rparr>)"
proof -
  have n: "(length df - 192 + 1 - 0 + 2) div 3 = window_count (length df)"
    using assms by (simp add: window_count_def)
  have r: "py_range 0 (length df - 192 + 1) 3 = map (\<lambda>k. 3 * k) [0..<window_count (length df)]"
    unfolding py_range_3 n by simp
  have b: "\<forall>s\<in>set (map (\<lambda>k. 3 * k) [0..<window_count (length df)]). s + 192 \<le> length df"
    using assms by (auto simp: window_count_def)
  have e: "sample_loop df (py_range 0 (length df - BAR_PER_DATAPOINT + 1) 3) empty_dataset =
           Inr \<lparr>X = \<lparr>dims = (176, 4),
                    elems = map (\<lambda>k. input_rows df (3 * k)) [0..<window_count (length df)]\<rparr>,
                Y = \<lparr>dims = (16, 4),
                    elems = map (\<lambda>k. output_rows df (3 * k)) [0..<window_count (length df)]\<rparr>\<rparr>"
    unfolding BAR_192 r sample_loop_eq[OF b valid_shape_empty]
    by (simp add: empty_dataset_def np_empty_def comp_def)
  show ?thesis
    unfolding sliding_window_sample_datapoints_def e
    using assms by (simp add: BAR_192)
qed

subsection \<open>The block schedule\<close>

lemma block_pos: "0 < Timedelta SPLIT_PER_DAY"
  by (simp add: Timedelta_def SPLIT_PER_DAY_def)

lemma cursors_count_step:
  fixes B :: int
  assumes "0 < B" "c + B \<le> e"
  shows "nat ((e - c) div B) = Suc (nat ((e - (c + B)) div B))"
proof -
  have eq: "e - (c + B) + B = e - c" by simp
  have "(e - (c + B) + B) div B = (e - (c + B)) div B + 1"
    by (rule div_add_self2) (use assms(1) in simp)
  then have "(e - c) div B = (e - (c + B)) div B + 1"
    unfolding eq .
  moreover have "0 \<le> (e - (c + B)) div B"
    using assms by (simp add: pos_imp_zdiv_nonneg_iff)
  ultimately show ?thesis by simp
qed

lemma block_cursors_step:
  assumes "c + Timedelta SPLIT_PER_DAY \<le> e"
  shows "block_cursors c e = c # block_cursors (c + Timedelta SPLIT_PER_DAY) e"
  unfolding block_cursors_def cursors_count_step[OF block_pos assms] map_upt_shift
  by (simp add: algebra_simps)

lemma block_cursors_stop:
  assumes "\<not> c + Timedelta SPLIT_PER_DAY \<le> e"
  shows "block_cursors c e = []"
proof -
  have "e - c < Timedelta SPLIT_PER_DAY" using assms by simp
  then have "(e - c) div Timedelta SPLIT_PER_DAY \<le> 0"
  proof (cases "e - c < 0")
    case True
    then have "(e - c) div Timedelta SPLIT_PER_DAY < 0"
      by (simp only: pos_imp_zdiv_neg_iff[OF block_pos])
    then show ?thesis by (rule less_imp_le)
  next
    case False
    with \<open>e - c < Timedelta SPLIT_PER_DAY\<close> show ?thesis
      by (simp add: div_pos_pos_trivial)
  qed
  then show ?thesis by (simp add: block_cursors_def)
qed

lemma walk_step:
  assumes "datetime_range (c + Timedelta SPLIT_PER_DAY)" "c + Timedelta SPLIT_PER_DAY \<le> e"
  shows "walk df e c tr va =
           (case process_block df c tr va of
              Inl x \<Rightarrow> Inl x
            | Inr (t, v) \<Rightarrow> walk df e (c + Timedelta SPLIT_PER_DAY) t v)"
  by (subst walk.simps) (simp add: datetime_add_def assms)

lemma walk_stop:
  assumes "datetime_range (c + Timedelta SPLIT_PER_DAY)" "\<not> c + Timedelta SPLIT_PER_DAY \<le> e"
  shows "walk df e c tr va = Inr (tr, va)"
  by (subst walk.simps) (simp add: datetime_add_def assms)

lemma walk_overflow:
  assumes "\<not> datetime_range (c + Timedelta SPLIT_PER_DAY)"
  shows "walk df e c tr va = Inl OverflowError"
  by (subst walk.simps) (simp add: datetime_add_def assms)

lemma walk_fold_blocks:
  assumes "datetime_range c" "datetime_range e"
  shows "walk df e c tr va =
           (case fold_blocks df (block_cursors c e) tr va of
              Inl x \<Rightarrow> Inl x
            | Inr (t, v) \<Rightarrow>
                if datetime_range (c + int (length (block_cursors c e)) * Timedelta SPLIT_PER_DAY +
                     Timedelta SPLIT_PER_DAY)
                then Inr (t, v) else Inl OverflowError)"
  using assms
proof (induction df e c tr va rule: walk.induct)
  case (1 df e c tr va)
  let ?T = "Timedelta SPLIT_PER_DAY"
  show ?case
  proof (cases "c + ?T \<le> e")
    case True
    have r: "datetime_range (c + ?T)"
      using True "1.prems" block_pos by (simp add: datetime_range_def)
    have add: "datetime_add c ?T = Inr (c + ?T)"
      using r by (simp add: datetime_add_def)
    have len: "c + int (length (block_cursors c e)) * ?T + ?T =
        c + ?T + int (length (block_cursors (c + ?T) e)) * ?T + ?T"
      unfolding block_cursors_step[OF True] by (simp add: algebra_simps)
    show ?thesis
    proof (cases "process_block df c tr va")
      case (Inl x)
      then show ?thesis
        unfolding walk_step[OF r True] block_cursors_step[OF True] by simp
    next
      case (Inr p)
      obtain t v where p: "p = (t, v)" by (cases p)
      note IH = "1.IH"[OF add True Inr p[symmetric] r "1.prems"(2)]
      have "walk df e c tr va = walk df e (c + ?T) t v"
        unfolding walk_step[OF r True] by (simp add: Inr p)
      also note IH
      finally show ?thesis
        unfolding len by (simp add: block_cursors_step[OF True] Inr p)
    qed
  next
    case False
    show ?thesis
    proof (cases "datetime_range (c + ?T)")
      case True
      then show ?thesis
        by (simp add: walk_stop[OF True False] block_cursors_stop[OF False])
    next
      case no: False
      then show ?thesis
        by (simp add: walk_overflow[OF no] block_cursors_stop[OF False])
    qed
  qed
qed

lemma length_block_cursors:
  "length (block_cursors c e) = nat ((e - c) div Timedelta SPLIT_PER_DAY)"
  by (simp add: block_cursors_def)

lemma walk_fold_ok:
  assumes "datetime_range c" "datetime_range e"
    and "datetime_range (c + int (nat ((e - c) div Timedelta SPLIT_PER_DAY)) * Timedelta SPLIT_PER_DAY +
           Timedelta SPLIT_PER_DAY)"
  shows "walk df e c tr va = fold_blocks df (block_cursors c e) tr va"
  unfolding walk_fold_blocks[OF assms(1,2)] length_block_cursors
  using assms(3) by (simp split: sum.splits)

lemma walk_fold_error:
  assumes "datetime_range c" "datetime_range e"
    and "fold_blocks df (block_cursors c e) tr va = Inl x"
  shows "walk df e c tr va = Inl x"
  unfolding walk_fold_blocks[OF assms(1,2)] by (simp add: assms(3))

lemma walk_fold_Inr:
  assumes "datetime_range c" "datetime_range e"
    and "walk df e c tr va = Inr (t, v)"
  shows "fold_blocks df (block_cursors c e) tr va = Inr (t, v)"
  using assms(3) unfolding walk_fold_blocks[OF assms(1,2)]
  by (auto split: sum.splits if_splits)

lemma sliding_ok:
  assumes "192 \<le> length df"
  shows "\<exists>d. sliding_window_sample_datapoints df = Inr (PyDataset d) \<and> valid_shape d \<and>
           paired d \<and> length (elems (X d)) = window_count (length df)"
  unfolding sliding_eq[OF assms]
  by (simp add: valid_shape_def paired_def IN_176 OUT_16 DIMENSION_PER_BAR_def)

lemma py_add_list: "py_add d PyEmptyList = Inl TypeError"
  by (simp add: py_add_def Dataset_add_def)

lemma py_add_append:
  "valid_shape a \<Longrightarrow> valid_shape b \<Longrightarrow> py_add a (PyDataset b) = Inr (ds_append a b)"
  by (simp add: py_add_valid ds_append_def)

lemma valid_shape_append: "valid_shape a \<Longrightarrow> valid_shape (ds_append a b)"
  by (simp add: valid_shape_def ds_append_def)

lemma process_block_train_short:
  "length (training_df df c) < 192 \<Longrightarrow> process_block df c tr va = Inl TypeError"
  by (simp add: process_block_def sliding_short py_add_list)

lemma process_block_validation_short:
  assumes "192 \<le> length (training_df df c)" "valid_shape tr"
    and "length (validation_df df c) < 192"
  shows "process_block df c tr va = Inl TypeError"
proof -
  from sliding_ok[OF assms(1)] obtain d where
    "sliding_window_sample_datapoints (training_df df c) = Inr (PyDataset d)" "valid_shape d"
    by blast
  then show ?thesis
    using assms(2,3)
    by (simp add: process_block_def py_add_append sliding_short py_add_list)
qed

lemma process_block_ok:
  assumes "192 \<le> length (training_df df c)" "192 \<le> length (validation_df df c)"
    and "valid_shape tr" "valid_shape va"
  shows "\<exists>d1 d2.
           sliding_window_sample_datapoints (training_df df c) = Inr (PyDataset d1) \<and>
           sliding_window_sample_datapoints (validation_df df c) = Inr (PyDataset d2) \<and>
           valid_shape d1 \<and> valid_shape d2 \<and>
           process_block df c tr va = Inr (ds_append tr d1, ds_append va d2)"
proof -
  from sliding_ok[OF assms(1)] obtain d1 where
    d1: "sliding_window_sample_datapoints (training_df df c) = Inr (PyDataset d1)" "valid_shape d1"
    by blast
  from sliding_ok[OF assms(2)] obtain d2 where
    d2: "sliding_window_sample_datapoints (validation_df df c) = Inr (PyDataset d2)" "valid_shape d2"
    by blast
  have "process_block df c tr va = Inr (ds_append tr d1, ds_append va d2)"
    using d1 d2 assms(3,4) by (simp add: process_block_def py_add_append)
  with d1 d2 show ?thesis by blast
qed


lemma length_synthetic_bars: "length (synthetic_bars len n) = n"
  by (simp add: synthetic_bars_def)

subsection \<open>The walk over the blocks\<close>

lemma split_days: "Timedelta SPLIT_PER_DAY = 23 * 86400000"
  by (simp add: Timedelta_def SPLIT_PER_DAY_def)

lemma training_days: "Timedelta TRAINING_DAY = 20 * 86400000"
  by (simp add: Timedelta_def TRAINING_DAY_def)

lemma series_min_eq: "xs \<noteq> [] \<Longrightarrow> series_min xs = Some (Min (set xs))"
  by (cases xs) (simp_all add: Min.set_eq_fold del: set_simps)

lemma series_max_eq: "xs \<noteq> [] \<Longrightarrow> series_max xs = Some (Max (set xs))"
  by (cases xs) (simp_all add: Max.set_eq_fold del: set_simps)

lemma series_extremes:
  assumes "df \<noteq> []"
  shows "series_min (map open_time df) = Some (Min (open_time ` set df))"
    and "series_max (map close_time df) = Some (Max (close_time ` set df))"
proof -
  have "map open_time df \<noteq> []" "map close_time df \<noteq> []" using assms by simp_all
  then show "series_min (map open_time df) = Some (Min (open_time ` set df))"
    and "series_max (map close_time df) = Some (Max (close_time ` set df))"
    by (simp_all add: series_min_eq series_max_eq)
qed

lemma split_nonempty:
  assumes "df \<noteq> []"
    and "datetime_range (Min (open_time ` set df))" "datetime_range (Max (close_time ` set df))"
  shows "split_train_validation df =
           walk df (Max (close_time ` set df)) (Min (open_time ` set df)) empty_dataset empty_dataset"
  using assms(2,3)
  by (simp add: split_train_validation_def series_extremes[OF assms(1)]
      ms_timestamp_to_datetime_def)

lemma split_out_of_range:
  assumes "df \<noteq> []"
    and "\<not> datetime_range (Min (open_time ` set df)) \<or> \<not> datetime_range (Max (close_time ` set df))"
  shows "split_train_validation df = Inl ValueError"
  using assms(2)
  by (auto simp: split_train_validation_def series_extremes[OF assms(1)]
      ms_timestamp_to_datetime_def)

lemma split_empty: "split_train_validation [] = Inr (empty_dataset, empty_dataset)"
  by (simp add: split_train_validation_def ms_timestamp_to_datetime_def)

lemma cursors_fit:
  fixes B :: int
  assumes "0 < B" "k < nat ((e - s) div B)"
  shows "s + int k * B + B \<le> e"
proof -
  have "int k + 1 \<le> (e - s) div B" using assms(2) by simp
  then have "(int k + 1) * B \<le> ((e - s) div B) * B"
    using assms(1) by (simp add: mult_right_mono)
  also have "\<dots> \<le> e - s"
  proof -
    have "e - s = (e - s) div B * B + (e - s) mod B" by simp
    moreover have "0 \<le> (e - s) mod B" using assms(1) by simp
    ultimately show ?thesis by linarith
  qed
  finally show ?thesis by (simp add: algebra_simps)
qed

lemma cursors_maximal:
  fixes B :: int
  assumes "0 < B"
  shows "\<not> s + int (nat ((e - s) div B)) * B + B \<le> e"
proof (cases "0 \<le> e - s")
  case True
  then have "0 \<le> (e - s) div B" using assms by (simp add: pos_imp_zdiv_nonneg_iff)
  then have n: "int (nat ((e - s) div B)) = (e - s) div B" by simp
  have "e - s = (e - s) div B * B + (e - s) mod B" by simp
  moreover have "(e - s) mod B < B" using assms by simp
  ultimately have "e - s < (e - s) div B * B + B" by linarith
  then show ?thesis unfolding n by linarith
next
  case False
  then have "(e - s) div B < 0" using assms by (simp add: pos_imp_zdiv_neg_iff)
  then have "nat ((e - s) div B) = 0" by simp
  then show ?thesis using False assms by simp
qed

lemma shape_empty:
  "shape (X empty_dataset) = (0, 176, 4)" "shape (Y empty_dataset) = (0, 16, 4)"
  by (simp_all add: shape_def empty_dataset_def np_empty_def IN_176 OUT_16 DIMENSION_PER_BAR_def)

lemma slice_bounds:
  "b \<in> set (training_df df c) \<Longrightarrow>
     b \<in> set df \<and> c \<le> open_time b \<and> close_time b < c + 20 * 86400000"
  "b \<in> set (validation_df df c) \<Longrightarrow>
     b \<in> set df \<and> c + 20 * 86400000 \<le> open_time b \<and> close_time b < c + 23 * 86400000"
  by (simp_all add: training_df_def validation_df_def training_days split_days)

subsection \<open>Addition of Datasets, pairing, failing blocks and the synthetic frames\<close>

lemma py_add_unit:
  "valid_shape a \<Longrightarrow> py_add empty_dataset (PyDataset a) = Inr a"
  "valid_shape a \<Longrightarrow> py_add a (PyDataset empty_dataset) = Inr a"
  by (simp_all add: py_add_append valid_shape_empty ds_append_def empty_dataset_def np_empty_def
      valid_shape_def)

lemma ds_append_assoc: "ds_append (ds_append a b) c = ds_append a (ds_append b c)"
  by (simp add: ds_append_def)

lemma py_add_paired:
  assumes "py_add a (PyDataset b) = Inr ab" "paired a" "paired b"
  shows "paired ab"
  using assms
  by (auto simp: py_add_def Dataset_add_def np_concatenate_def paired_def
      split: if_splits)

lemma sliding_paired:
  assumes "sliding_window_sample_datapoints df = Inr (PyDataset d)"
  shows "paired d"
proof (cases "length df < 192")
  case True
  with assms show ?thesis by (simp add: sliding_short)
next
  case False
  then have "192 \<le> length df" by simp
  from sliding_ok[OF this] assms show ?thesis by auto
qed

lemma py_add_Inr_cases:
  assumes "py_add a r = Inr ab"
  obtains b where "r = PyDataset b"
  using assms by (cases r) (simp_all add: py_add_list)

lemma process_block_paired:
  assumes "process_block df c tr va = Inr (t, v)" "paired tr" "paired va"
  shows "paired t \<and> paired v"
proof -
  from assms(1) obtain r1 r2 where
    r1: "sliding_window_sample_datapoints (training_df df c) = Inr r1" "py_add tr r1 = Inr t" and
    r2: "sliding_window_sample_datapoints (validation_df df c) = Inr r2" "py_add va r2 = Inr v"
    by (auto simp: process_block_def split: sum.splits)
  from r1(2) obtain d1 where d1: "r1 = PyDataset d1" by (rule py_add_Inr_cases)
  from r2(2) obtain d2 where d2: "r2 = PyDataset d2" by (rule py_add_Inr_cases)
  have "paired d1" using r1(1) unfolding d1 by (rule sliding_paired)
  moreover have "paired d2" using r2(1) unfolding d2 by (rule sliding_paired)
  ultimately show ?thesis
    using r1(2) r2(2) assms(2,3) unfolding d1 d2 by (blast intro: py_add_paired)
qed

lemma fold_blocks_paired:
  assumes "fold_blocks df cs tr va = Inr (t, v)" "paired tr" "paired va"
  shows "paired t \<and> paired v"
  using assms
proof (induction cs arbitrary: tr va)
  case Nil
  then show ?case by simp
next
  case (Cons c cs)
  from Cons.prems(1) obtain t' v' where
    p: "process_block df c tr va = Inr (t', v')" and f: "fold_blocks df cs t' v' = Inr (t, v)"
    by (auto split: sum.splits)
  from process_block_paired[OF p Cons.prems(2,3)] Cons.IH[OF f] show ?case by blast
qed

lemma paired_empty: "paired empty_dataset"
  by (simp add: paired_def empty_dataset_def np_empty_def)

lemma split_paired:
  assumes "split_train_validation df = Inr (t, v)"
  shows "paired t \<and> paired v"
proof (cases "df = []")
  case True
  with assms show ?thesis by (auto simp: split_empty paired_empty)
next
  case False
  show ?thesis
  proof (cases "datetime_range (Min (open_time ` set df)) \<and> datetime_range (Max (close_time ` set df))")
    case True
    then have r: "datetime_range (Min (open_time ` set df))"
      "datetime_range (Max (close_time ` set df))" by simp_all
    from assms have "walk df (Max (close_time ` set df)) (Min (open_time ` set df))
        empty_dataset empty_dataset = Inr (t, v)"
      by (simp add: split_nonempty[OF False r])
    from walk_fold_Inr[OF r this] show ?thesis
      by (rule fold_blocks_paired) (rule paired_empty)+
  next
    case False
    then have "split_train_validation df = Inl ValueError"
      using \<open>df \<noteq> []\<close> by (simp add: split_out_of_range)
    with assms show ?thesis by simp
  qed
qed

lemma fold_blocks_type_error:
  assumes "valid_shape tr" "valid_shape va"
    and "\<exists>c\<in>set cs. length (training_df df c) < 192 \<or> length (validation_df df c) < 192"
  shows "fold_blocks df cs tr va = Inl TypeError"
  using assms
proof (induction cs arbitrary: tr va)
  case Nil
  then show ?case by simp
next
  case (Cons c cs)
  show ?case
  proof (cases "length (training_df df c) < 192")
    case True
    then show ?thesis by (simp add: process_block_train_short)
  next
    case tr_ok: False
    show ?thesis
    proof (cases "length (validation_df df c) < 192")
      case True
      with tr_ok Cons.prems(1) show ?thesis
        by (simp add: process_block_validation_short)
    next
      case False
      with tr_ok have ok: "192 \<le> length (training_df df c)" "192 \<le> length (validation_df df c)"
        by simp_all
      from process_block_ok[OF ok Cons.prems(1,2)] obtain d1 d2 where
        p: "process_block df c tr va = Inr (ds_append tr d1, ds_append va d2)" by blast
      have rest: "\<exists>c\<in>set cs. length (training_df df c) < 192 \<or> length (validation_df df c) < 192"
        using Cons.prems(3) tr_ok False by auto
      have "fold_blocks df cs (ds_append tr d1) (ds_append va d2) = Inl TypeError"
        by (rule Cons.IH[OF valid_shape_append valid_shape_append rest]) (rule Cons.prems)+
      then show ?thesis by (simp add: p)
    qed
  qed
qed

lemma py_add_eq:
  "py_add a (PyDataset b) =
     (if dims (X a) = dims (X b) \<and> dims (Y a) = dims (Y b) then Inr (ds_append a b)
      else Inl ValueError)"
  by (simp add: py_add_def Dataset_add_def np_concatenate_def ds_append_def)

lemma ds_append_dims: "dims (X (ds_append a b)) = dims (X a)" "dims (Y (ds_append a b)) = dims (Y a)"
  by (simp_all add: ds_append_def)

lemma py_add_assoc:
  "(case py_add a (PyDataset b) of Inl e \<Rightarrow> Inl e | Inr ab \<Rightarrow> py_add ab (PyDataset c)) =
   (case py_add b (PyDataset c) of Inl e \<Rightarrow> Inl e | Inr bc \<Rightarrow> py_add a (PyDataset bc))"
  by (auto simp: py_add_eq ds_append_dims ds_append_assoc)

lemma process_block_sizes:
  assumes "192 \<le> length (training_df df c)" "192 \<le> length (validation_df df c)"
    and "valid_shape tr" "valid_shape va"
  shows "\<exists>t v. process_block df c tr va = Inr (t, v) \<and>
           length (elems (X t)) =
             length (elems (X tr)) + window_count (length (training_df df c)) \<and>
           length (elems (X v)) =
             length (elems (X va)) + window_count (length (validation_df df c))"
proof -
  from sliding_ok[OF assms(1)] obtain d1 where
    d1: "sliding_window_sample_datapoints (training_df df c) = Inr (PyDataset d1)" "valid_shape d1"
      "length (elems (X d1)) = window_count (length (training_df df c))"
    by blast
  from sliding_ok[OF assms(2)] obtain d2 where
    d2: "sliding_window_sample_datapoints (validation_df df c) = Inr (PyDataset d2)" "valid_shape d2"
      "length (elems (X d2)) = window_count (length (validation_df df c))"
    by blast
  have "process_block df c tr va = Inr (ds_append tr d1, ds_append va d2)"
    using d1(1,2) d2(1,2) assms(3,4) by (simp add: process_block_def py_add_append)
  moreover have "length (elems (X (ds_append tr d1))) =
      length (elems (X tr)) + window_count (length (training_df df c))"
    by (simp add: ds_append_def d1(3))
  moreover have "length (elems (X (ds_append va d2))) =
      length (elems (X va)) + window_count (length (validation_df df c))"
    by (simp add: ds_append_def d2(3))
  ultimately show ?thesis by blast
qed

lemma walk_single_block:
  assumes "s + Timedelta SPLIT_PER_DAY \<le> e"
    and "\<not> s + Timedelta SPLIT_PER_DAY + Timedelta SPLIT_PER_DAY \<le> e"
    and "datetime_range (s + Timedelta SPLIT_PER_DAY)"
    and "datetime_range (s + Timedelta SPLIT_PER_DAY + Timedelta SPLIT_PER_DAY)"
    and "length (training_df df s) = a" "192 \<le> a"
    and "length (validation_df df s) = b" "192 \<le> b"
  shows "result_sizes (walk df e s empty_dataset empty_dataset) =
           Inr (window_count a, window_count b)"
proof -
  have ok: "192 \<le> length (training_df df s)" "192 \<le> length (validation_df df s)"
    using assms(5-8) by simp_all
  from process_block_sizes[OF ok valid_shape_empty valid_shape_empty] obtain t v where
    p: "process_block df s empty_dataset empty_dataset = Inr (t, v)"
    and n: "length (elems (X t)) = window_count a" "length (elems (X v)) = window_count b"
    by (auto simp: assms(5,7) empty_dataset_def np_empty_def)
  have "walk df e s empty_dataset empty_dataset =
          walk df e (s + Timedelta SPLIT_PER_DAY) t v"
    unfolding walk_step[OF assms(3,1)] by (simp add: p)
  also have "\<dots> = Inr (t, v)"
    using assms(4,2) by (rule walk_stop)
  finally show ?thesis by (simp add: result_sizes_def n)
qed

lemma filter_upt_range: "filter (\<lambda>k. a \<le> k \<and> k < b) [0..<n] = [a..<min b n]"
proof (induction n)
  case 0
  then show ?case by simp
next
  case (Suc n)
  show ?case
  proof (cases "n < b")
    case True
    then have m: "min b (Suc n) = Suc n" "min b n = n" by simp_all
    show ?thesis using Suc True unfolding m by (cases "a \<le> n") simp_all
  next
    case False
    then have m: "min b (Suc n) = b" "min b n = b" by simp_all
    show ?thesis using Suc False unfolding m by simp
  qed
qed

lemma synthetic_slice:
  "filter (\<lambda>b. lo \<le> open_time b \<and> close_time b < hi) (synthetic_bars len n) =
     map (synthetic_bar len)
       (filter (\<lambda>k. lo \<le> int k * 900000 \<and> int k * 900000 + len < hi) [0..<n])"
  by (simp add: synthetic_bars_def filter_map comp_def synthetic_bar_def)

lemma synthetic_Min:
  assumes "0 < n"
  shows "Min (set (map open_time (synthetic_bars len n))) = 0"
    and "series_min (map open_time (synthetic_bars len n)) = Some 0"
proof -
  have ne: "map open_time (synthetic_bars len n) \<noteq> []"
    using assms by (simp add: synthetic_bars_def)
  show m: "Min (set (map open_time (synthetic_bars len n))) = 0"
  proof (rule Min_eqI)
    show "finite (set (map open_time (synthetic_bars len n)))" by simp
    show "0 \<le> y" if "y \<in> set (map open_time (synthetic_bars len n))" for y
      using that by (auto simp: synthetic_bars_def synthetic_bar_def)
    show "0 \<in> set (map open_time (synthetic_bars len n))"
      using assms by (auto simp: synthetic_bars_def synthetic_bar_def image_iff intro!: bexI[of _ 0])
  qed
  then show "series_min (map open_time (synthetic_bars len n)) = Some 0"
    by (simp only: series_min_eq[OF ne])
qed

lemma synthetic_Max:
  assumes "0 < n"
  shows "Max (set (map close_time (synthetic_bars len n))) = int n * 900000 - 900000 + len"
    and "series_max (map close_time (synthetic_bars len n)) = Some (int n * 900000 - 900000 + len)"
proof -
  have ne: "map close_time (synthetic_bars len n) \<noteq> []"
    using assms by (simp add: synthetic_bars_def)
  show "Max (set (map close_time (synthetic_bars len n))) = int n * 900000 - 900000 + len"
  proof (rule Max_eqI)
    show "finite (set (map close_time (synthetic_bars len n)))" by simp
    show "y \<le> int n * 900000 - 900000 + len"
      if "y \<in> set (map close_time (synthetic_bars len n))" for y
      using that by (auto simp: synthetic_bars_def synthetic_bar_def)
    show "int n * 900000 - 900000 + len \<in> set (map close_time (synthetic_bars len n))"
      using assms
      by (auto simp: synthetic_bars_def synthetic_bar_def image_iff algebra_simps
          intro!: bexI[of _ "n - 1"])
  qed
  then show "series_max (map close_time (synthetic_bars len n)) =
      Some (int n * 900000 - 900000 + len)"
    by (simp only: series_max_eq[OF ne])
qed

lemma synthetic_split:
  assumes "0 < n" "n \<le> 5000" "0 \<le> len" "len \<le> 900000"
  shows "split_train_validation (synthetic_bars len n) =
           walk (synthetic_bars len n) (int n * 900000 - 900000 + len) 0 empty_dataset empty_dataset"
proof -
  have "- 62135596800000 \<le> int n * 900000 - 900000 + len"
    "int n * 900000 - 900000 + len \<le> 253402300799999"
    using assms by simp_all
  then show ?thesis
    by (simp add: split_train_validation_def synthetic_Min(2)[OF assms(1)]
        synthetic_Max(2)[OF assms(1)] ms_timestamp_to_datetime_def datetime_range_def)
qed

lemma synthetic_slice_length:
  assumes "\<And>k. (lo \<le> int k * 900000 \<and> int k * 900000 + len < hi) = (a \<le> k \<and> k < b)"
  shows "length (filter (\<lambda>b. lo \<le> open_time b \<and> close_time b < hi) (synthetic_bars len n)) =
           min b n - a"
  unfolding synthetic_slice assms filter_upt_range by simp

lemma synthetic_training_length:
  "length (training_df (synthetic_bars 899999 n) 0) = min 1920 n"
  "length (training_df (synthetic_bars 900000 n) 0) = min 1919 n"
proof -
  have 1: "(0 \<le> int k * 900000 \<and> int k * 900000 + 899999 < 1728000000) = (0 \<le> k \<and> k < 1920)"
    for k by arith
  have 2: "(0 \<le> int k * 900000 \<and> int k * 900000 + 900000 < 1728000000) = (0 \<le> k \<and> k < 1919)"
    for k by arith
  show "length (training_df (synthetic_bars 899999 n) 0) = min 1920 n"
    using synthetic_slice_length[of 0 899999 1728000000 0 1920 n, OF 1]
    by (simp add: training_df_def training_days)
  show "length (training_df (synthetic_bars 900000 n) 0) = min 1919 n"
    using synthetic_slice_length[of 0 900000 1728000000 0 1919 n, OF 2]
    by (simp add: training_df_def training_days)
qed

lemma synthetic_validation_length:
  "length (validation_df (synthetic_bars 899999 n) 0) = min 2208 n - 1920"
  "length (validation_df (synthetic_bars 900000 n) 0) = min 2207 n - 1920"
proof -
  have 1: "(1728000000 \<le> int k * 900000 \<and> int k * 900000 + 899999 < 1987200000) =
           (1920 \<le> k \<and> k < 2208)" for k by arith
  have 2: "(1728000000 \<le> int k * 900000 \<and> int k * 900000 + 900000 < 1987200000) =
           (1920 \<le> k \<and> k < 2207)" for k by arith
  show "length (validation_df (synthetic_bars 899999 n) 0) = min 2208 n - 1920"
    using synthetic_slice_length[of 1728000000 899999 1987200000 1920 2208 n, OF 1]
    by (simp add: validation_df_def training_days split_days)
  show "length (validation_df (synthetic_bars 900000 n) 0) = min 2207 n - 1920"
    using synthetic_slice_length[of 1728000000 900000 1987200000 1920 2207 n, OF 2]
    by (simp add: validation_df_def training_days split_days)
qed

lemma synthetic_one_block:
  assumes "2209 \<le> n" "n \<le> 4416"
  shows "result_sizes (split_train_validation (synthetic_bars 899999 n)) = Inr (577, 33)"
proof -
  have n: "0 < n" using assms(1) by simp
  have t: "length (training_df (synthetic_bars 899999 n) 0) = 1920"
    using assms(1) by (simp add: synthetic_training_length)
  have v: "length (validation_df (synthetic_bars 899999 n) 0) = 288"
    using assms(1) by (simp add: synthetic_validation_length)
  have c1: "0 + Timedelta SPLIT_PER_DAY \<le> int n * 900000 - 900000 + 899999"
    using assms(1) by (simp add: split_days)
  have c2: "\<not> 0 + Timedelta SPLIT_PER_DAY + Timedelta SPLIT_PER_DAY \<le> int n * 900000 - 900000 + 899999"
    using assms(2) by (simp add: split_days)
  have sp: "split_train_validation (synthetic_bars 899999 n) =
      walk (synthetic_bars 899999 n) (int n * 900000 - 900000 + 899999) 0
        empty_dataset empty_dataset"
    by (rule synthetic_split) (use assms in simp_all)
  have "result_sizes (split_train_validation (synthetic_bars 899999 n)) =
          Inr (window_count 1920, window_count 288)"
    unfolding sp
    by (rule walk_single_block[OF c1 c2 _ _ t _ v]) (simp_all add: split_days datetime_range_def)
  then show ?thesis by (simp add: window_count_def)
qed

lemma result_sizes_Inr:
  assumes "result_sizes r = Inr (a, b)"
  obtains tr va where "r = Inr (tr, va)" "length (elems (X tr)) = a" "length (elems (X va)) = b"
  using assms by (cases r) (auto simp: result_sizes_def)

subsection \<open>Conversion to float64, rows of the samples, and trailing bars\<close>

lemma bitlen_54:
  assumes "2 ^ 53 \<le> a" "a < 2 ^ 54"
  shows "bitlen a = 54"
proof -
  have "bitlen a \<le> 54" using assms(2) by (simp add: bitlen_le_iff_power)
  moreover have "54 \<le> bitlen a" using assms(1) by (simp add: bitlen_ge_iff_power)
  ultimately show ?thesis by simp
qed

lemma sgn_mult_abs_int: "sgn n * \<bar>n\<bar> = (n::int)"
  by (simp add: abs_if sgn_if)

lemma float64_of_int_exact:
  assumes "\<bar>n\<bar> \<le> 2 ^ 53"
  shows "float64_of_int n = of_int n"
proof (cases "\<bar>n\<bar> < 2 ^ 53")
  case True
  then have "bitlen \<bar>n\<bar> \<le> 53" by (simp add: bitlen_le_iff_power)
  then have e: "nat (bitlen \<bar>n\<bar> - 53) = 0" by simp
  show ?thesis
    unfolding float64_of_int_def Let_def e by (simp add: sgn_mult_abs_int)
next
  case False
  with assms have a: "\<bar>n\<bar> = 2 ^ 53" by simp
  have "bitlen (2 ^ 53) = 54" by (rule bitlen_54) simp_all
  then have e: "nat (bitlen (2 ^ 53) - 53) = 1" by simp
  have "sgn n * (2 ^ 53) = n" using sgn_mult_abs_int[of n] unfolding a .
  then show ?thesis
    unfolding float64_of_int_def Let_def a e by simp
qed

lemma astype_exact: "exact_cell c \<Longrightarrow> astype_float64 c = cell_value c"
  by (cases c) (simp_all add: exact_cell_def astype_float64_def cell_value_def float64_of_int_exact)

lemma float64_of_int_big: "float64_of_int 9007199254740993 = 9007199254740992"
proof -
  have "bitlen \<bar>9007199254740993\<bar> = 54" by (rule bitlen_54) simp_all
  then have e: "nat (bitlen \<bar>9007199254740993\<bar> - 53) = 1" by simp
  show ?thesis
    unfolding float64_of_int_def Let_def e by simp
qed

lemma iloc_nth: "i < b - a \<Longrightarrow> b \<le> length df \<Longrightarrow> iloc df a b ! i = df ! (a + i)"
  by (simp add: iloc_def)

lemma sliding_rows:
  assumes "192 \<le> length df"
  shows "\<exists>d. sliding_window_sample_datapoints df = Inr (PyDataset d) \<and>
           shape (X d) = (window_count (length df), 176, 4) \<and>
           shape (Y d) = (window_count (length df), 16, 4) \<and>
           (\<forall>k < window_count (length df).
              length (elems (X d) ! k) = 176 \<and> length (elems (Y d) ! k) = 16 \<and>
              (\<forall>i<176. elems (X d) ! k ! i = map astype_float64 (prices (df ! (3 * k + i)))) \<and>
              (\<forall>j<16. elems (Y d) ! k ! j =
                 map astype_float64 (prices (df ! (3 * k + 176 + j)))))"
proof -
  let ?n = "window_count (length df)"
  have fit: "3 * k + 192 \<le> length df" if "k < ?n" for k
    using that assms by (simp add: window_count_def)
  have x: "input_rows df (3 * k) ! i = map astype_float64 (prices (df ! (3 * k + i)))"
    if "k < ?n" "i < 176" for k i
    using fit[OF that(1)] that(2)
    by (simp add: input_rows_def window_parts(3) iloc_nth)
  have y: "output_rows df (3 * k) ! j = map astype_float64 (prices (df ! (3 * k + 176 + j)))"
    if "k < ?n" "j < 16" for k j
    using fit[OF that(1)] that(2)
    by (simp add: output_rows_def window_parts(4) iloc_nth)
  have l: "length (input_rows df (3 * k)) = 176 \<and> length (output_rows df (3 * k)) = 16"
    if "k < ?n" for k
    using window_parts(3,4)[OF fit[OF that]]
    by (simp add: input_rows_def output_rows_def)
  show ?thesis
    unfolding sliding_eq[OF assms]
    using x y l by (simp add: shape_def)
qed

lemma process_block_Inr:
  assumes "process_block df c tr va = Inr (t, v)"
  shows "\<exists>d1 d2. sliding_window_sample_datapoints (training_df df c) = Inr (PyDataset d1) \<and>
           sliding_window_sample_datapoints (validation_df df c) = Inr (PyDataset d2) \<and>
           t = ds_append tr d1 \<and> v = ds_append va d2"
proof -
  from assms obtain r1 r2 where
    r1: "sliding_window_sample_datapoints (training_df df c) = Inr r1" "py_add tr r1 = Inr t" and
    r2: "sliding_window_sample_datapoints (validation_df df c) = Inr r2" "py_add va r2 = Inr v"
    by (auto simp: process_block_def split: sum.splits)
  from r1(2) obtain d1 where d1: "r1 = PyDataset d1" by (rule py_add_Inr_cases)
  from r2(2) obtain d2 where d2: "r2 = PyDataset d2" by (rule py_add_Inr_cases)
  have "t = ds_append tr d1" using r1(2) unfolding d1 by (simp add: py_add_eq split: if_splits)
  moreover have "v = ds_append va d2" using r2(2) unfolding d2 by (simp add: py_add_eq split: if_splits)
  ultimately show ?thesis using r1(1) r2(1) d1 d2 by blast
qed

lemma slices_ignore_trailing:
  assumes "c + Timedelta SPLIT_PER_DAY \<le> hi"
  shows "training_df (filter (\<lambda>b. close_time b < hi) df) c = training_df df c"
    and "validation_df (filter (\<lambda>b. close_time b < hi) df) c = validation_df df c"
proof -
  have "c + Timedelta TRAINING_DAY \<le> hi"
    using assms by (simp add: split_days training_days)
  then show "training_df (filter (\<lambda>b. close_time b < hi) df) c = training_df df c"
    by (auto simp: training_df_def intro: filter_cong)
  show "validation_df (filter (\<lambda>b. close_time b < hi) df) c = validation_df df c"
    using assms by (auto simp: validation_df_def intro: filter_cong)
qed

lemma process_block_ignores_trailing:
  assumes "c + Timedelta SPLIT_PER_DAY \<le> hi"
  shows "process_block (filter (\<lambda>b. close_time b < hi) df) c tr va = process_block df c tr va"
  unfolding process_block_def slices_ignore_trailing[OF assms] by (rule refl)

lemma fold_blocks_ignores_trailing:
  assumes "\<forall>c\<in>set cs. c + Timedelta SPLIT_PER_DAY \<le> hi"
  shows "fold_blocks (filter (\<lambda>b. close_time b < hi) df) cs tr va = fold_blocks df cs tr va"
  using assms
proof (induction cs arbitrary: tr va)
  case Nil
  then show ?case by simp
next
  case (Cons c cs)
  then have c: "c + Timedelta SPLIT_PER_DAY \<le> hi" by simp
  show ?case
    using Cons by (simp add: process_block_ignores_trailing[OF c] split: sum.splits)
qed

section \<open>The claims\<close>

text \<open>
  C1: on a frame of \<open>L\<close> bars the sampler returns without an exception, with
  \<open>(L - 192) div 3 + 1\<close> samples when \<open>L \<ge> 192\<close> and with none when \<open>L < 192\<close>
  (then the value returned is the empty list). So 192 bars give one sample and 191 give none.
  When \<open>L \<ge> 192\<close> the loop runs over the start indices \<open>0, 3, 6, \<dots>\<close>, the last of
  which still has 192 bars after it while the next multiple of 3 does not.
\<close>

theorem sample_count:
  "map_sum id num_samples (sliding_window_sample_datapoints df) =
     Inr (if length df < 192 then 0 else (length df - 192) div 3 + 1) \<and>
   (192 \<le> length df \<longrightarrow>
      py_range 0 (length df - BAR_PER_DATAPOINT + 1) 3 =
        map (\<lambda>k. 3 * k) [0..<(length df - 192) div 3 + 1] \<and>
      3 * ((length df - 192) div 3) + 192 \<le> length df \<and>
      length df < 3 * ((length df - 192) div 3 + 1) + 192)"
proof -
  have count: "map_sum id num_samples (sliding_window_sample_datapoints df) =
     Inr (if length df < 192 then 0 else (length df - 192) div 3 + 1)"
  proof (cases "length df < 192")
    case True
    then show ?thesis by (simp add: sliding_short num_samples_def)
  next
    case False
    then have "192 \<le> length df" by simp
    from sliding_eq[OF this] False show ?thesis
      by (simp add: num_samples_def window_count_def)
  qed
  have starts: "py_range 0 (length df - BAR_PER_DATAPOINT + 1) 3 =
        map (\<lambda>k. 3 * k) [0..<(length df - 192) div 3 + 1]" if "192 \<le> length df"
  proof -
    have "(length df - 192 + 1 - 0 + 2) div 3 = (length df - 192) div 3 + 1"
      using that by simp
    then show ?thesis unfolding BAR_192 py_range_3 by simp
  qed
  have fits: "3 * ((length df - 192) div 3) + 192 \<le> length df \<and>
      length df < 3 * ((length df - 192) div 3 + 1) + 192" if "192 \<le> length df"
    using that by arith
  from count starts fits show ?thesis by blast
qed

theorem sample_count_witness:
  "map_sum id num_samples (sliding_window_sample_datapoints (synthetic_bars 900000 192)) = Inr 1 \<and>
   map_sum id num_samples (sliding_window_sample_datapoints (synthetic_bars 900000 191)) = Inr 0 \<and>
   map_sum id num_samples (sliding_window_sample_datapoints (synthetic_bars 900000 200)) = Inr 3 \<and>
   py_range 0 (length (synthetic_bars 900000 200) - BAR_PER_DATAPOINT + 1) 3 = [0, 3, 6]"
  using sample_count[of "synthetic_bars 900000 192"] sample_count[of "synthetic_bars 900000 191"]
    sample_count[of "synthetic_bars 900000 200"]
  by (simp add: length_synthetic_bars upt_conv_Cons)

text \<open>
  C2, evaluated on the code: on 191 bars the sampler returns the empty list, which is not the
  empty \<^verbatim>\<open>Dataset\<close>; no exception is raised.
\<close>

theorem short_frame_returns_list:
  "sliding_window_sample_datapoints (synthetic_bars 900000 191) = Inr PyEmptyList \<and>
   sliding_window_sample_datapoints (synthetic_bars 900000 191) \<noteq> Inr (PyDataset empty_dataset)"
  by (simp add: sliding_short length_synthetic_bars)

text \<open>
  C3: every pass of the loop body, at a block start \<open>cursor\<close>, hands the sampler exactly
  two slices of the frame, in the order of the frame: for training the bars with
  \<open>open_time \<ge> cursor\<close> and \<open>close_time < cursor + 20 days\<close>, for validation the bars with
  \<open>open_time \<ge> cursor + 20 days\<close> and \<open>close_time < cursor + 23 days\<close>. The loop runs this
  body at every cursor whose block fits, and what a pass that returns adds to the two
  Datasets are the samples of these two slices. A bar that closes exactly at the seam is not in the
  training slice (and a bar that opens before the seam is not in the validation slice).
\<close>

theorem block_slices:
  "training_df df c =
     filter (\<lambda>b. c \<le> open_time b \<and> close_time b < c + 20 * 86400000) df \<and>
   validation_df df c =
     filter (\<lambda>b. c + 20 * 86400000 \<le> open_time b \<and> close_time b < c + 23 * 86400000) df \<and>
   process_block df c tr va =
     (case sliding_window_sample_datapoints
             (filter (\<lambda>b. c \<le> open_time b \<and> close_time b < c + 20 * 86400000) df) of
        Inl x \<Rightarrow> Inl x
      | Inr r1 \<Rightarrow>
          (case py_add tr r1 of
             Inl x \<Rightarrow> Inl x
           | Inr t \<Rightarrow>
               (case sliding_window_sample_datapoints
                       (filter (\<lambda>b. c + 20 * 86400000 \<le> open_time b \<and>
                                     close_time b < c + 23 * 86400000) df) of
                  Inl x \<Rightarrow> Inl x
                | Inr r2 \<Rightarrow>
                    (case py_add va r2 of Inl x \<Rightarrow> Inl x | Inr v \<Rightarrow> Inr (t, v))))) \<and>
   (datetime_range (c + 23 * 86400000) \<and> c + 23 * 86400000 \<le> e \<longrightarrow>
      walk df e c tr va =
        (case process_block df c tr va of
           Inl x \<Rightarrow> Inl x
         | Inr (t, v) \<Rightarrow> walk df e (c + 23 * 86400000) t v)) \<and>
   (\<forall>t v. process_block df c tr va = Inr (t, v) \<longrightarrow>
      (\<exists>d1 d2.
         sliding_window_sample_datapoints
           (filter (\<lambda>b. c \<le> open_time b \<and> close_time b < c + 20 * 86400000) df) =
           Inr (PyDataset d1) \<and>
         sliding_window_sample_datapoints
           (filter (\<lambda>b. c + 20 * 86400000 \<le> open_time b \<and>
                         close_time b < c + 23 * 86400000) df) =
           Inr (PyDataset d2) \<and>
         t = ds_append tr d1 \<and> v = ds_append va d2)) \<and>
   (\<forall>b \<in> set df. close_time b = c + 20 * 86400000 \<longrightarrow> b \<notin> set (training_df df c)) \<and>
   (\<forall>b \<in> set df. open_time b < c + 20 * 86400000 \<longrightarrow> b \<notin> set (validation_df df c))"
proof -
  have tr: "training_df df c =
      filter (\<lambda>b. c \<le> open_time b \<and> close_time b < c + 20 * 86400000) df"
    by (simp add: training_df_def training_days)
  have va: "validation_df df c =
      filter (\<lambda>b. c + 20 * 86400000 \<le> open_time b \<and> close_time b < c + 23 * 86400000) df"
    by (simp add: validation_df_def training_days split_days)
  note body = process_block_def[of df c tr va, unfolded tr va]
  note step = walk_step[of c e df tr va, unfolded split_days]
  have ret: "\<exists>d1 d2.
         sliding_window_sample_datapoints
           (filter (\<lambda>b. c \<le> open_time b \<and> close_time b < c + 20 * 86400000) df) =
           Inr (PyDataset d1) \<and>
         sliding_window_sample_datapoints
           (filter (\<lambda>b. c + 20 * 86400000 \<le> open_time b \<and>
                         close_time b < c + 23 * 86400000) df) =
           Inr (PyDataset d2) \<and>
         t = ds_append tr d1 \<and> v = ds_append va d2"
    if "process_block df c tr va = Inr (t, v)" for t v
    using process_block_Inr[OF that] unfolding tr va .
  have seam: "b \<notin> set (training_df df c)" if "close_time b = c + 20 * 86400000" for b
    using that unfolding tr by simp
  have seam': "b \<notin> set (validation_df df c)" if "open_time b < c + 20 * 86400000" for b
    using that unfolding va by simp
  from tr va body step ret seam seam' show ?thesis by blast
qed

theorem block_slices_witness:
  "training_df [synthetic_bar 900000 0, synthetic_bar 900000 1919, synthetic_bar 900000 1920] 0 =
     [synthetic_bar 900000 0] \<and>
   validation_df [synthetic_bar 900000 0, synthetic_bar 900000 1919, synthetic_bar 900000 1920] 0 =
     [synthetic_bar 900000 1920] \<and>
   close_time (synthetic_bar 900000 1919) = 0 + 20 * 86400000 \<and>
   synthetic_bar 900000 1919 \<notin>
     set (training_df [synthetic_bar 900000 0, synthetic_bar 900000 1919, synthetic_bar 900000 1920] 0) \<and>
   (\<exists>t v d1 d2.
      process_block (synthetic_bars 899999 2209) 0 empty_dataset empty_dataset = Inr (t, v) \<and>
      sliding_window_sample_datapoints
        (filter (\<lambda>b. 0 \<le> open_time b \<and> close_time b < 0 + 20 * 86400000)
           (synthetic_bars 899999 2209)) = Inr (PyDataset d1) \<and>
      sliding_window_sample_datapoints
        (filter (\<lambda>b. 0 + 20 * 86400000 \<le> open_time b \<and> close_time b < 0 + 23 * 86400000)
           (synthetic_bars 899999 2209)) = Inr (PyDataset d2) \<and>
      t = ds_append empty_dataset d1 \<and> v = ds_append empty_dataset d2 \<and>
      length (elems (X t)) = 577 \<and> length (elems (X v)) = 33)"
proof -
  note small = block_slices[of "[synthetic_bar 900000 0, synthetic_bar 900000 1919,
      synthetic_bar 900000 1920]" 0]
  have 1: "training_df [synthetic_bar 900000 0, synthetic_bar 900000 1919, synthetic_bar 900000 1920] 0 =
     [synthetic_bar 900000 0]"
    and 2: "validation_df [synthetic_bar 900000 0, synthetic_bar 900000 1919, synthetic_bar 900000 1920] 0 =
     [synthetic_bar 900000 1920]"
    and 3: "close_time (synthetic_bar 900000 1919) = 0 + 20 * 86400000"
    and 4: "synthetic_bar 900000 1919 \<notin>
     set (training_df [synthetic_bar 900000 0, synthetic_bar 900000 1919, synthetic_bar 900000 1920] 0)"
    using small by (simp_all add: synthetic_bar_def)
  have ok: "192 \<le> length (training_df (synthetic_bars 899999 2209) 0)"
    "192 \<le> length (validation_df (synthetic_bars 899999 2209) 0)"
    by (simp_all add: synthetic_training_length synthetic_validation_length)
  from process_block_sizes[OF ok valid_shape_empty valid_shape_empty] obtain t v where
    p: "process_block (synthetic_bars 899999 2209) 0 empty_dataset empty_dataset = Inr (t, v)"
    and n: "length (elems (X t)) = 577" "length (elems (X v)) = 33"
    by (auto simp: synthetic_training_length synthetic_validation_length window_count_def
        empty_dataset_def np_empty_def)
  note big = block_slices[of "synthetic_bars 899999 2209" 0 empty_dataset empty_dataset]
  from big p obtain d1 d2 where
    "sliding_window_sample_datapoints
        (filter (\<lambda>b. 0 \<le> open_time b \<and> close_time b < 0 + 20 * 86400000)
           (synthetic_bars 899999 2209)) = Inr (PyDataset d1)"
    "sliding_window_sample_datapoints
        (filter (\<lambda>b. 0 + 20 * 86400000 \<le> open_time b \<and> close_time b < 0 + 23 * 86400000)
           (synthetic_bars 899999 2209)) = Inr (PyDataset d2)"
    "t = ds_append empty_dataset d1" "v = ds_append empty_dataset d2"
    by blast
  with p n have 5: "\<exists>t v d1 d2.
      process_block (synthetic_bars 899999 2209) 0 empty_dataset empty_dataset = Inr (t, v) \<and>
      sliding_window_sample_datapoints
        (filter (\<lambda>b. 0 \<le> open_time b \<and> close_time b < 0 + 20 * 86400000)
           (synthetic_bars 899999 2209)) = Inr (PyDataset d1) \<and>
      sliding_window_sample_datapoints
        (filter (\<lambda>b. 0 + 20 * 86400000 \<le> open_time b \<and> close_time b < 0 + 23 * 86400000)
           (synthetic_bars 899999 2209)) = Inr (PyDataset d2) \<and>
      t = ds_append empty_dataset d1 \<and> v = ds_append empty_dataset d2 \<and>
      length (elems (X t)) = 577 \<and> length (elems (X v)) = 33"
    by blast
  from 1 2 3 4 5 show ?thesis by blast
qed

text \<open>
  C4: take a non-empty frame on which the partitioner gets through its conversions and
  guards: the least \<open>open_time\<close>, the greatest \<open>close_time\<close> and the sum the last test of
  the guard forms are instants a \<^verbatim>\<open>datetime\<close> holds. Then the partitioner is the
  fold of the loop body over the block starts \<open>start + k \<times> 23 days\<close>, \<open>k < n\<close>, from
  \<open>start\<close> the least \<open>open_time\<close>: every block fits before the greatest
  \<open>close_time\<close>, the next one would not, and consecutive starts are exactly 23 days apart.
  The result is the same when every bar that closes at or after the end of the last block is
  removed from the frame the body works on, so the trailing span reaches no sample of either
  Dataset; the bars of each slice lie inside their own block.
\<close>

theorem block_walk:
  assumes "df \<noteq> []"
    and "datetime_range (Min (open_time ` set df))"
    and "datetime_range (Max (close_time ` set df))"
    and "datetime_range
           (Min (open_time ` set df) +
            int (nat ((Max (close_time ` set df) - Min (open_time ` set df)) div (23 * 86400000))) *
              (23 * 86400000) +
            23 * 86400000)"
  shows "let s = Min (open_time ` set df); e = Max (close_time ` set df);
             n = nat ((e - s) div (23 * 86400000)) in
         split_train_validation df =
           fold_blocks df (map (\<lambda>k. s + int k * (23 * 86400000)) [0..<n]) empty_dataset empty_dataset \<and>
         split_train_validation df =
           fold_blocks (filter (\<lambda>b. close_time b < s + int n * (23 * 86400000)) df)
             (map (\<lambda>k. s + int k * (23 * 86400000)) [0..<n]) empty_dataset empty_dataset \<and>
         (\<forall>k<n. s + int k * (23 * 86400000) + 23 * 86400000 \<le> e) \<and>
         \<not> s + int n * (23 * 86400000) + 23 * 86400000 \<le> e \<and>
         (\<forall>k<n. \<forall>b \<in> set (training_df df (s + int k * (23 * 86400000))) \<union>
                       set (validation_df df (s + int k * (23 * 86400000))).
            s + int k * (23 * 86400000) \<le> open_time b \<and>
            close_time b < s + int k * (23 * 86400000) + 23 * 86400000) \<and>
         (\<forall>b \<in> set df. s + int n * (23 * 86400000) \<le> close_time b \<longrightarrow>
            (\<forall>k<n. b \<notin> set (training_df df (s + int k * (23 * 86400000))) \<and>
                    b \<notin> set (validation_df df (s + int k * (23 * 86400000)))))"
proof -
  define s where "s = Min (open_time ` set df)"
  define e where "e = Max (close_time ` set df)"
  define B :: int where "B = 23 * 86400000"
  define n where "n = nat ((e - s) div B)"
  have B: "0 < B" by (simp add: B_def)
  have BT: "Timedelta SPLIT_PER_DAY = B" by (simp add: B_def split_days)
  have "datetime_range
      (Min (open_time ` set df) +
       int (nat ((Max (close_time ` set df) - Min (open_time ` set df)) div Timedelta SPLIT_PER_DAY)) *
         Timedelta SPLIT_PER_DAY + Timedelta SPLIT_PER_DAY)"
    using assms(4) unfolding split_days .
  note w = walk_fold_ok[OF assms(2,3) this]
  have 1: "split_train_validation df =
             fold_blocks df (map (\<lambda>k. s + int k * B) [0..<n]) empty_dataset empty_dataset"
    unfolding split_nonempty[OF assms(1,2,3)] w block_cursors_def split_days
    by (simp add: s_def e_def n_def B_def)
  have 2: "s + int k * B + B \<le> e" if "k < n" for k
    using cursors_fit[OF B] that unfolding n_def by blast
  have 3: "\<not> s + int n * B + B \<le> e"
    unfolding n_def by (rule cursors_maximal[OF B])
  have 4: "s + int k * B \<le> open_time b \<and> close_time b < s + int k * B + B"
    if "b \<in> set (training_df df (s + int k * B)) \<union> set (validation_df df (s + int k * B))"
    for k b
    using that slice_bounds[of b df "s + int k * B"] by (auto simp: B_def)
  have le: "s + int k * B + B \<le> s + int n * B" if "k < n" for k
  proof -
    have "int k + 1 \<le> int n" using that by simp
    then have "(int k + 1) * B \<le> int n * B" using B by (simp add: mult_right_mono)
    then show ?thesis by (simp add: algebra_simps)
  qed
  have 5: "b \<notin> set (training_df df (s + int k * B)) \<and> b \<notin> set (validation_df df (s + int k * B))"
    if "s + int n * B \<le> close_time b" "k < n" for k b
  proof -
    have "s + int k * B + B \<le> close_time b" using that(1) le[OF that(2)] by simp
    then show ?thesis using 4[of b k] by fastforce
  qed
  have "\<forall>c\<in>set (map (\<lambda>k. s + int k * B) [0..<n]). c + Timedelta SPLIT_PER_DAY \<le> s + int n * B"
    unfolding BT using le by auto
  from fold_blocks_ignores_trailing[OF this] 1
  have 6: "split_train_validation df =
             fold_blocks (filter (\<lambda>b. close_time b < s + int n * B) df)
               (map (\<lambda>k. s + int k * B) [0..<n]) empty_dataset empty_dataset"
    by simp
  show ?thesis
    unfolding Let_def s_def[symmetric] e_def[symmetric] B_def[symmetric] n_def[symmetric]
    using 1 6 2 3 4 5 by blast
qed

theorem block_walk_witness:
  "synthetic_bars 899999 2300 \<noteq> [] \<and>
   datetime_range (Min (open_time ` set (synthetic_bars 899999 2300))) \<and>
   datetime_range (Max (close_time ` set (synthetic_bars 899999 2300))) \<and>
   split_train_validation (synthetic_bars 899999 2300) =
     fold_blocks (filter (\<lambda>b. close_time b < 23 * 86400000) (synthetic_bars 899999 2300)) [0]
       empty_dataset empty_dataset \<and>
   result_sizes (split_train_validation (synthetic_bars 899999 2300)) = Inr (577, 33)"
proof -
  have ne: "synthetic_bars 899999 2300 \<noteq> []"
    using length_synthetic_bars[of 899999 2300] by auto
  have m: "Min (open_time ` set (synthetic_bars 899999 2300)) = 0"
    using synthetic_Min(1)[of 2300 899999] by simp
  have M: "Max (close_time ` set (synthetic_bars 899999 2300)) = 2069999999"
    using synthetic_Max(1)[of 2300 899999] by simp
  have r: "datetime_range (Min (open_time ` set (synthetic_bars 899999 2300)))"
    "datetime_range (Max (close_time ` set (synthetic_bars 899999 2300)))"
    "datetime_range
       (Min (open_time ` set (synthetic_bars 899999 2300)) +
        int (nat ((Max (close_time ` set (synthetic_bars 899999 2300)) -
                   Min (open_time ` set (synthetic_bars 899999 2300))) div (23 * 86400000))) *
          (23 * 86400000) +
        23 * 86400000)"
    unfolding m M by (simp_all add: datetime_range_def)
  have sz: "result_sizes (split_train_validation (synthetic_bars 899999 2300)) = Inr (577, 33)"
    by (rule synthetic_one_block) simp_all
  from block_walk[OF ne r] have
    "split_train_validation (synthetic_bars 899999 2300) =
     fold_blocks (filter (\<lambda>b. close_time b < 23 * 86400000) (synthetic_bars 899999 2300)) [0]
       empty_dataset empty_dataset"
    unfolding m M by (simp add: Let_def del: fold_blocks.simps) (elim conjE, simp)
  with ne r(1,2) sz show ?thesis by blast
qed

text \<open>
  C5 as stated fails on a frame spanning exactly 23 days. With 2208 bars that each close when
  the next opens, the span is exactly 23 days, the slices hold 1919 and 287 bars, and the
  block yields 576 and 32 samples. With 2208 bars that each close 1 ms earlier, the span
  falls 1 ms short of 23 days and no block is processed.
\<close>

theorem exact_span_counterexample:
  "series_min (map open_time (synthetic_bars 900000 2208)) = Some 0 \<and>
   series_max (map close_time (synthetic_bars 900000 2208)) = Some (23 * 86400000) \<and>
   length (training_df (synthetic_bars 900000 2208) 0) = 1919 \<and>
   length (validation_df (synthetic_bars 900000 2208) 0) = 287 \<and>
   result_sizes (split_train_validation (synthetic_bars 900000 2208)) = Inr (576, 32) \<and>
   result_sizes (split_train_validation (synthetic_bars 900000 2208)) \<noteq> Inr (577, 33) \<and>
   result_sizes (split_train_validation (synthetic_bars 899999 2208)) = Inr (0, 0)"
proof -
  have n: "0 < (2208::nat)" and n5: "(2208::nat) \<le> 5000" by simp_all
  have l0: "(0::int) \<le> 900000" and l1: "(900000::int) \<le> 900000" by simp_all
  have m0: "(0::int) \<le> 899999" and m1: "(899999::int) \<le> 900000" by simp_all
  have t: "length (training_df (synthetic_bars 900000 2208) 0) = 1919"
    by (simp add: synthetic_training_length)
  have v: "length (validation_df (synthetic_bars 900000 2208) 0) = 287"
    by (simp add: synthetic_validation_length)
  have c1: "0 + Timedelta SPLIT_PER_DAY \<le> int 2208 * 900000 - 900000 + 900000"
    by (simp add: split_days)
  have c2: "\<not> 0 + Timedelta SPLIT_PER_DAY + Timedelta SPLIT_PER_DAY \<le> int 2208 * 900000 - 900000 + 900000"
    by (simp add: split_days)
  have "result_sizes (split_train_validation (synthetic_bars 900000 2208)) =
          Inr (window_count 1919, window_count 287)"
    unfolding synthetic_split[OF n n5 l0 l1]
    by (rule walk_single_block[OF c1 c2 _ _ t _ v]) (simp_all add: split_days datetime_range_def)
  then have r: "result_sizes (split_train_validation (synthetic_bars 900000 2208)) = Inr (576, 32)"
    by (simp add: window_count_def)
  have c0: "\<not> 0 + Timedelta SPLIT_PER_DAY \<le> int 2208 * 900000 - 900000 + 899999"
    by (simp add: split_days)
  have r0: "datetime_range (0 + Timedelta SPLIT_PER_DAY)"
    by (simp add: split_days datetime_range_def)
  have z: "result_sizes (split_train_validation (synthetic_bars 899999 2208)) = Inr (0, 0)"
    unfolding synthetic_split[OF n n5 m0 m1] walk_stop[OF r0 c0]
    by (simp add: result_sizes_def empty_dataset_def np_empty_def)
  show ?thesis
    using t v r z synthetic_Min(2)[OF n, of 900000] synthetic_Max(2)[OF n, of 900000] by simp
qed

text \<open>
  C5, amended: on the synthetic 15-minute frame whose bars close 1 ms before the next one
  opens, with between 2209 and 4416 bars (the frame reaches past the end of the first 23-day
  block and not to the end of a second), the one block processed has a training slice of 1920
  bars and a validation slice of 288 bars and yields 577 training and 33 validation samples.
\<close>

theorem one_block_counts:
  assumes "2209 \<le> n" "n \<le> 4416"
  shows "result_sizes (split_train_validation (synthetic_bars 899999 n)) = Inr (577, 33) \<and>
         length (training_df (synthetic_bars 899999 n) 0) = 1920 \<and>
         length (validation_df (synthetic_bars 899999 n) 0) = 288"
  using assms synthetic_one_block[OF assms]
  by (simp add: synthetic_training_length synthetic_validation_length)

theorem one_block_counts_witness:
  "(2209::nat) \<le> 2209 \<and> (2209::nat) \<le> 4416 \<and>
   result_sizes (split_train_validation (synthetic_bars 899999 2209)) = Inr (577, 33) \<and>
   length (training_df (synthetic_bars 899999 2209) 0) = 1920 \<and>
   length (validation_df (synthetic_bars 899999 2209) 0) = 288"
  using one_block_counts[of 2209] by simp

text \<open>
  C6 as stated fails on prices that float64 does not hold: in the frame of 192 bars whose
  opening price is the integer \<open>2\<^sup>5\<^sup>3 + 1\<close>, the first row of \<open>X[0]\<close> begins with
  \<open>2\<^sup>5\<^sup>3\<close>, not with the price field.
\<close>

theorem big_price_counterexample:
  "map_sum id (\<lambda>r. case r of PyEmptyList \<Rightarrow> [] | PyDataset d \<Rightarrow> elems (X d) ! 0 ! 0)
     (sliding_window_sample_datapoints big_price_bars) = Inr [9007199254740992, 1, 1, 1] \<and>
   map cell_value (prices (big_price_bars ! 0)) = [9007199254740993, 1, 1, 1]"
proof -
  have len: "length big_price_bars = 192" by (simp add: big_price_bars_def)
  then have "192 \<le> length big_price_bars" by simp
  from sliding_rows[OF this] obtain d where
    d: "sliding_window_sample_datapoints big_price_bars = Inr (PyDataset d)"
    and rows: "\<forall>k < window_count (length big_price_bars).
        \<forall>i<176. elems (X d) ! k ! i = map astype_float64 (prices (big_price_bars ! (3 * k + i)))"
    by blast
  have "(0::nat) < window_count (length big_price_bars)" "(0::nat) < 176"
    by (simp_all add: len window_count_def)
  with rows have "elems (X d) ! 0 ! 0 = map astype_float64 (prices (big_price_bars ! (3 * 0 + 0)))"
    by blast
  moreover have b0: "big_price_bars ! 0 =
      \<lparr>open_time = 0, close_time = 899999, p_open = IntCell 9007199254740993,
       p_close = IntCell 1, p_high = IntCell 1, p_low = IntCell 1\<rparr>"
    by (simp add: big_price_bars_def)
  moreover have "float64_of_int 1 = 1" using float64_of_int_exact[of 1] by simp
  ultimately have "elems (X d) ! 0 ! 0 = [9007199254740992, 1, 1, 1]"
    by (simp add: prices_def astype_float64_def float64_of_int_big)
  then show ?thesis
    by (simp add: d b0 prices_def cell_value_def)
qed

text \<open>
  C6, amended: on a frame of at least 192 bars the sampler returns a \<^verbatim>\<open>Dataset\<close>
  whose \<open>X\<close> has shape \<open>[N, 176, 4]\<close> and whose \<open>Y\<close> has shape \<open>[N, 16, 4]\<close>. Sample \<open>k\<close>
  comes from the window starting at \<open>s = 3k\<close>: row \<open>i\<close> of \<open>X[k]\<close> holds the opening,
  closing, high and low price of bar \<open>s + i\<close>, \<open>i < 176\<close>, and row \<open>j\<close> of \<open>Y[k]\<close> those of
  bar \<open>s + 176 + j\<close>, \<open>j < 16\<close>, each converted to float64; so the two bar ranges are
  \<open>[s, s + 176)\<close> and \<open>[s + 176, s + 192)\<close>, with no gap and no overlap. The conversion
  leaves a price as it is when it is a float64 already or an integer of magnitude at most
  \<open>2\<^sup>5\<^sup>3\<close>.
\<close>

theorem sample_contents:
  assumes "192 \<le> length df"
  shows "(\<exists>d. sliding_window_sample_datapoints df = Inr (PyDataset d) \<and>
           shape (X d) = ((length df - 192) div 3 + 1, 176, 4) \<and>
           shape (Y d) = ((length df - 192) div 3 + 1, 16, 4) \<and>
           (\<forall>k < (length df - 192) div 3 + 1.
              length (elems (X d) ! k) = 176 \<and> length (elems (Y d) ! k) = 16 \<and>
              (\<forall>i<176. elems (X d) ! k ! i =
                 [astype_float64 (p_open (df ! (3 * k + i))),
                  astype_float64 (p_close (df ! (3 * k + i))),
                  astype_float64 (p_high (df ! (3 * k + i))),
                  astype_float64 (p_low (df ! (3 * k + i)))]) \<and>
              (\<forall>j<16. elems (Y d) ! k ! j =
                 [astype_float64 (p_open (df ! (3 * k + 176 + j))),
                  astype_float64 (p_close (df ! (3 * k + 176 + j))),
                  astype_float64 (p_high (df ! (3 * k + 176 + j))),
                  astype_float64 (p_low (df ! (3 * k + 176 + j)))]))) \<and>
         (\<forall>c. exact_cell c \<longrightarrow> astype_float64 c = cell_value c)"
proof -
  have n: "window_count (length df) = (length df - 192) div 3 + 1"
    using assms by (simp add: window_count_def)
  from sliding_rows[OF assms] astype_exact show ?thesis
    unfolding n prices_def by simp
qed

theorem sample_contents_witness:
  "192 \<le> length (synthetic_bars 900000 200) \<and>
   (\<exists>d. sliding_window_sample_datapoints (synthetic_bars 900000 200) = Inr (PyDataset d) \<and>
      shape (X d) = (3, 176, 4) \<and> shape (Y d) = (3, 16, 4) \<and>
      elems (X d) ! 2 ! 5 = [11, 12, 13, 14] \<and>
      elems (Y d) ! 2 ! 0 = [182, 183, 184, 185])"
proof -
  have h: "192 \<le> length (synthetic_bars 900000 200)"
    by (simp add: length_synthetic_bars)
  from sample_contents[OF h] obtain d where
    d: "sliding_window_sample_datapoints (synthetic_bars 900000 200) = Inr (PyDataset d)"
      "shape (X d) = ((length (synthetic_bars 900000 200) - 192) div 3 + 1, 176, 4)"
      "shape (Y d) = ((length (synthetic_bars 900000 200) - 192) div 3 + 1, 16, 4)"
    and k: "\<forall>k < (length (synthetic_bars 900000 200) - 192) div 3 + 1.
        (\<forall>i<176. elems (X d) ! k ! i =
           [astype_float64 (p_open (synthetic_bars 900000 200 ! (3 * k + i))),
            astype_float64 (p_close (synthetic_bars 900000 200 ! (3 * k + i))),
            astype_float64 (p_high (synthetic_bars 900000 200 ! (3 * k + i))),
            astype_float64 (p_low (synthetic_bars 900000 200 ! (3 * k + i)))]) \<and>
        (\<forall>j<16. elems (Y d) ! k ! j =
           [astype_float64 (p_open (synthetic_bars 900000 200 ! (3 * k + 176 + j))),
            astype_float64 (p_close (synthetic_bars 900000 200 ! (3 * k + 176 + j))),
            astype_float64 (p_high (synthetic_bars 900000 200 ! (3 * k + 176 + j))),
            astype_float64 (p_low (synthetic_bars 900000 200 ! (3 * k + 176 + j)))])"
    and ex: "\<forall>c. exact_cell c \<longrightarrow> astype_float64 c = cell_value c"
    by blast
  have "(2::nat) < (length (synthetic_bars 900000 200) - 192) div 3 + 1"
    by (simp add: length_synthetic_bars)
  with k have
    x: "elems (X d) ! 2 ! 5 =
           [astype_float64 (p_open (synthetic_bars 900000 200 ! (3 * 2 + 5))),
            astype_float64 (p_close (synthetic_bars 900000 200 ! (3 * 2 + 5))),
            astype_float64 (p_high (synthetic_bars 900000 200 ! (3 * 2 + 5))),
            astype_float64 (p_low (synthetic_bars 900000 200 ! (3 * 2 + 5)))]"
    and y: "elems (Y d) ! 2 ! 0 =
           [astype_float64 (p_open (synthetic_bars 900000 200 ! (3 * 2 + 176 + 0))),
            astype_float64 (p_close (synthetic_bars 900000 200 ! (3 * 2 + 176 + 0))),
            astype_float64 (p_high (synthetic_bars 900000 200 ! (3 * 2 + 176 + 0))),
            astype_float64 (p_low (synthetic_bars 900000 200 ! (3 * 2 + 176 + 0)))]"
    by simp_all
  have cells: "astype_float64 (IntCell n) = of_int n" if "\<bar>n\<bar> \<le> 2 ^ 53" for n
    using ex that by (simp add: exact_cell_def cell_value_def)
  have b: "synthetic_bars 900000 200 ! 11 = synthetic_bar 900000 11"
    "synthetic_bars 900000 200 ! 182 = synthetic_bar 900000 182"
    by (simp_all add: synthetic_bars_def)
  have "elems (X d) ! 2 ! 5 = [11, 12, 13, 14]"
    using x by (simp add: b synthetic_bar_def cells)
  moreover have "elems (Y d) ! 2 ! 0 = [182, 183, 184, 185]"
    using y by (simp add: b synthetic_bar_def cells)
  ultimately show ?thesis
    using h d by (simp add: length_synthetic_bars)
qed

text \<open>
  C7: addition of Datasets is associative, also where it raises: \<open>(a + b) + c\<close> and
  \<open>a + (b + c)\<close> return the same Dataset or raise the same exception. On Datasets of the
  shape of \<^verbatim>\<open>empty_dataset()\<close> (\<open>X\<close> \<open>[N, 176, 4]\<close>, \<open>Y\<close> \<open>[N, 16, 4]\<close>) the sum returns a
  Dataset of that shape with the samples of \<open>a\<close> before those of \<open>b\<close> in \<open>X\<close> and in
  \<open>Y\<close>, so with \<open>Na + Nb\<close> samples, and the empty Dataset is a left and right identity.
\<close>

theorem concat_monoid:
  "(case py_add a (PyDataset b) of Inl e \<Rightarrow> Inl e | Inr ab \<Rightarrow> py_add ab (PyDataset c)) =
   (case py_add b (PyDataset c) of Inl e \<Rightarrow> Inl e | Inr bc \<Rightarrow> py_add a (PyDataset bc)) \<and>
   (valid_shape a \<and> valid_shape b \<longrightarrow>
      (\<exists>ab. py_add a (PyDataset b) = Inr ab \<and> valid_shape ab \<and>
         elems (X ab) = elems (X a) @ elems (X b) \<and>
         elems (Y ab) = elems (Y a) @ elems (Y b) \<and>
         length (elems (X ab)) = length (elems (X a)) + length (elems (X b)) \<and>
         length (elems (Y ab)) = length (elems (Y a)) + length (elems (Y b)))) \<and>
   (valid_shape a \<longrightarrow>
      py_add empty_dataset (PyDataset a) = Inr a \<and> py_add a (PyDataset empty_dataset) = Inr a)"
proof -
  have "\<exists>ab. py_add a (PyDataset b) = Inr ab \<and> valid_shape ab \<and>
         elems (X ab) = elems (X a) @ elems (X b) \<and>
         elems (Y ab) = elems (Y a) @ elems (Y b) \<and>
         length (elems (X ab)) = length (elems (X a)) + length (elems (X b)) \<and>
         length (elems (Y ab)) = length (elems (Y a)) + length (elems (Y b))"
    if v: "valid_shape a" "valid_shape b"
  proof -
    have "py_add a (PyDataset b) = Inr (ds_append a b)"
      using v by (rule py_add_append)
    moreover have "valid_shape (ds_append a b)"
      using v(1) by (rule valid_shape_append)
    moreover have "elems (X (ds_append a b)) = elems (X a) @ elems (X b)"
      "elems (Y (ds_append a b)) = elems (Y a) @ elems (Y b)"
      by (simp_all add: ds_append_def)
    ultimately show ?thesis by simp
  qed
  then show ?thesis
    using py_add_assoc[where a = a and b = b and c = c] py_add_unit[of a] by blast
qed

theorem concat_monoid_witness:
  "valid_shape (unit_dataset 1) \<and> valid_shape (unit_dataset 2) \<and>
   (\<exists>ab. py_add (unit_dataset 1) (PyDataset (unit_dataset 2)) = Inr ab \<and>
      elems (X ab) = [replicate 176 (replicate 4 1), replicate 176 (replicate 4 2)] \<and>
      length (elems (Y ab)) = 2) \<and>
   (case py_add (unit_dataset 1) (PyDataset (unit_dataset 2)) of
      Inl e \<Rightarrow> Inl e | Inr ab \<Rightarrow> py_add ab (PyDataset (unit_dataset 3))) =
   (case py_add (unit_dataset 2) (PyDataset (unit_dataset 3)) of
      Inl e \<Rightarrow> Inl e | Inr bc \<Rightarrow> py_add (unit_dataset 1) (PyDataset bc)) \<and>
   py_add empty_dataset (PyDataset (unit_dataset 1)) = Inr (unit_dataset 1) \<and>
   py_add (unit_dataset 1) (PyDataset empty_dataset) = Inr (unit_dataset 1)"
proof -
  have v: "valid_shape (unit_dataset 1)" "valid_shape (unit_dataset 2)"
    by (simp_all add: valid_shape_def unit_dataset_def IN_176 OUT_16 DIMENSION_PER_BAR_def)
  have x: "elems (X (unit_dataset 1)) @ elems (X (unit_dataset 2)) =
      [replicate 176 (replicate 4 1), replicate 176 (replicate 4 2)]"
    "length (elems (Y (unit_dataset 1))) + length (elems (Y (unit_dataset 2))) = 2"
    by (simp_all add: unit_dataset_def)
  note m = concat_monoid[where a = "unit_dataset 1" and b = "unit_dataset 2" and c = "unit_dataset 3"]
  from m v obtain ab where
    ab: "py_add (unit_dataset 1) (PyDataset (unit_dataset 2)) = Inr ab"
      "elems (X ab) = elems (X (unit_dataset 1)) @ elems (X (unit_dataset 2))"
      "length (elems (Y ab)) = length (elems (Y (unit_dataset 1))) + length (elems (Y (unit_dataset 2)))"
    by blast
  have 1: "\<exists>ab. py_add (unit_dataset 1) (PyDataset (unit_dataset 2)) = Inr ab \<and>
      elems (X ab) = [replicate 176 (replicate 4 1), replicate 176 (replicate 4 2)] \<and>
      length (elems (Y ab)) = 2"
    using ab x by auto
  from m v(1) have 2:
    "py_add empty_dataset (PyDataset (unit_dataset 1)) = Inr (unit_dataset 1)"
    "py_add (unit_dataset 1) (PyDataset empty_dataset) = Inr (unit_dataset 1)"
    by blast+
  from m have 3:
    "(case py_add (unit_dataset 1) (PyDataset (unit_dataset 2)) of
        Inl e \<Rightarrow> Inl e | Inr ab \<Rightarrow> py_add ab (PyDataset (unit_dataset 3))) =
     (case py_add (unit_dataset 2) (PyDataset (unit_dataset 3)) of
        Inl e \<Rightarrow> Inl e | Inr bc \<Rightarrow> py_add (unit_dataset 1) (PyDataset bc))"
    by blast
  from v 1 2 3 show ?thesis by blast
qed

text \<open>
  C8 as stated fails where a \<^verbatim>\<open>datetime\<close> ends. A single bar that opens on
  10000-01-01 and closes 1 ms later spans less than 23 days, and the partitioner raises
  \<^verbatim>\<open>ValueError\<close> when it converts the least \<open>open_time\<close>. A single bar that covers
  the last second of 9999-12-31 spans less than 23 days, and the partitioner raises
  \<^verbatim>\<open>OverflowError\<close> when the guard of the loop adds 23 days to it.
\<close>

theorem datetime_end_counterexample:
  "Max (close_time ` set year_10000_bars) - Min (open_time ` set year_10000_bars) < 23 * 86400000 \<and>
   split_train_validation year_10000_bars = Inl ValueError \<and>
   Max (close_time ` set year_9999_bars) - Min (open_time ` set year_9999_bars) < 23 * 86400000 \<and>
   split_train_validation year_9999_bars = Inl OverflowError"
proof -
  have "walk year_9999_bars 253402300799999 253402300799000 empty_dataset empty_dataset =
      Inl OverflowError"
    by (rule walk_overflow) (simp add: split_days datetime_range_def)
  then have "split_train_validation year_9999_bars = Inl OverflowError"
    by (simp add: year_9999_bars_def split_train_validation_def ms_timestamp_to_datetime_def
        datetime_range_def)
  then show ?thesis
    by (simp add: year_10000_bars_def year_9999_bars_def split_train_validation_def
        ms_timestamp_to_datetime_def datetime_range_def)
qed

text \<open>
  C8, amended: on the empty frame, and on every frame whose least \<open>open_time\<close> and greatest
  \<open>close_time\<close> are less than 23 days apart and are instants a \<^verbatim>\<open>datetime\<close> holds
  (years 1 to 9999), as is the least \<open>open_time\<close> plus 23 days, the partitioner returns the
  two empty Datasets, of shapes \<open>[0, 176, 4]\<close> and \<open>[0, 16, 4]\<close>, and raises nothing.
\<close>

theorem short_span_empty:
  assumes "df = [] \<or>
           (datetime_range (Min (open_time ` set df)) \<and>
            datetime_range (Max (close_time ` set df)) \<and>
            datetime_range (Min (open_time ` set df) + 23 * 86400000) \<and>
            Max (close_time ` set df) - Min (open_time ` set df) < 23 * 86400000)"
  shows "split_train_validation df = Inr (empty_dataset, empty_dataset) \<and>
         shape (X (empty_dataset :: float64 Dataset)) = (0, 176, 4) \<and>
         shape (Y (empty_dataset :: float64 Dataset)) = (0, 16, 4)"
proof (cases "df = []")
  case True
  then show ?thesis by (simp add: split_empty shape_empty)
next
  case False
  with assms have r: "datetime_range (Min (open_time ` set df))"
    "datetime_range (Max (close_time ` set df))"
    and g: "datetime_range (Min (open_time ` set df) + Timedelta SPLIT_PER_DAY)"
    "\<not> Min (open_time ` set df) + Timedelta SPLIT_PER_DAY \<le> Max (close_time ` set df)"
    by (simp_all add: split_days)
  from walk_stop[OF g] show ?thesis
    by (simp add: split_nonempty[OF False r] shape_empty)
qed

theorem short_span_empty_witness:
  "datetime_range (Min (open_time ` set [synthetic_bar 900000 0, synthetic_bar 900000 1])) \<and>
   datetime_range (Max (close_time ` set [synthetic_bar 900000 0, synthetic_bar 900000 1])) \<and>
   datetime_range
     (Min (open_time ` set [synthetic_bar 900000 0, synthetic_bar 900000 1]) + 23 * 86400000) \<and>
   Max (close_time ` set [synthetic_bar 900000 0, synthetic_bar 900000 1]) -
     Min (open_time ` set [synthetic_bar 900000 0, synthetic_bar 900000 1]) < 23 * 86400000 \<and>
   split_train_validation [synthetic_bar 900000 0, synthetic_bar 900000 1] =
     Inr (empty_dataset, empty_dataset) \<and>
   split_train_validation [] = Inr (empty_dataset, empty_dataset)"
  using short_span_empty[of "[synthetic_bar 900000 0, synthetic_bar 900000 1]"]
    short_span_empty[of "[]"]
  by (simp add: synthetic_bar_def datetime_range_def)

text \<open>
  C9: \<open>len(X) = len(Y)\<close> holds for the empty Dataset, for every Dataset the sampler returns,
  for the sum of two Datasets that have it, and for both Datasets the partitioner returns.
\<close>

theorem pairing_invariant:
  "paired (empty_dataset :: float64 Dataset) \<and>
   (\<forall>d. sliding_window_sample_datapoints df = Inr (PyDataset d) \<longrightarrow> paired d) \<and>
   (\<forall>ab. paired a \<and> paired b \<and> py_add a (PyDataset b) = Inr ab \<longrightarrow>
      paired (ab :: 'p Dataset)) \<and>
   (\<forall>tr va. split_train_validation df' = Inr (tr, va) \<longrightarrow> paired tr \<and> paired va)"
  using paired_empty sliding_paired py_add_paired split_paired by blast

theorem pairing_invariant_witness:
  "paired (empty_dataset :: float64 Dataset) \<and>
   (\<exists>d. sliding_window_sample_datapoints (synthetic_bars 900000 200) = Inr (PyDataset d) \<and>
      paired d) \<and>
   (\<exists>ab. py_add (unit_dataset 1) (PyDataset (unit_dataset 2)) = Inr ab \<and> paired ab) \<and>
   (\<exists>tr va. split_train_validation (synthetic_bars 899999 2209) = Inr (tr, va) \<and>
      length (elems (X tr)) = 577 \<and> paired tr \<and> paired va)"
proof -
  have "192 \<le> length (synthetic_bars 900000 200)" by (simp add: length_synthetic_bars)
  from sliding_ok[OF this] obtain d where
    d: "sliding_window_sample_datapoints (synthetic_bars 900000 200) = Inr (PyDataset d)" by blast
  have v: "valid_shape (unit_dataset 1)" "valid_shape (unit_dataset 2)"
    by (simp_all add: valid_shape_def unit_dataset_def IN_176 OUT_16 DIMENSION_PER_BAR_def)
  have p: "paired (unit_dataset 1)" "paired (unit_dataset 2)"
    by (simp_all add: paired_def unit_dataset_def)
  note ab = py_add_append[OF v]
  have "result_sizes (split_train_validation (synthetic_bars 899999 2209)) = Inr (577, 33)"
    by (rule synthetic_one_block) simp_all
  then obtain tr va where
    s: "split_train_validation (synthetic_bars 899999 2209) = Inr (tr, va)"
      "length (elems (X tr)) = 577"
    by (rule result_sizes_Inr)
  note inv = pairing_invariant[where df = "synthetic_bars 900000 200" and a = "unit_dataset 1"
      and b = "unit_dataset 2" and df' = "synthetic_bars 899999 2209"]
  from inv have 0: "paired (empty_dataset :: float64 Dataset)" by blast
  from inv d have 1: "paired d" by blast
  from inv ab p have 2: "paired (ds_append (unit_dataset 1) (unit_dataset 2))" by blast
  from inv s(1) have 3: "paired tr \<and> paired va" by blast
  from 0 1 2 3 d ab s show ?thesis by blast
qed

text \<open>
  C10: on a non-empty frame whose extreme instants a \<^verbatim>\<open>datetime\<close> can hold (so that
  the loop is reached), if the training or the validation slice of block \<open>k\<close> of the
  schedule (\<open>k < n\<close>, start \<open>c\<close>) has fewer than 192 bars, \<^verbatim>\<open>split_train_validation\<close>
  raises \<^verbatim>\<open>TypeError\<close>: the sampler returns the empty list on such a slice,
  \<^verbatim>\<open>Dataset.__add__\<close> returns \<^verbatim>\<open>NotImplemented\<close> on a list, and the sum
  raises.
\<close>

theorem short_slice_type_error:
  assumes "df \<noteq> []"
    and "datetime_range (Min (open_time ` set df))"
    and "datetime_range (Max (close_time ` set df))"
    and "k < nat ((Max (close_time ` set df) - Min (open_time ` set df)) div (23 * 86400000))"
    and "c = Min (open_time ` set df) + int k * (23 * 86400000)"
    and "length (training_df df c) < 192 \<or> length (validation_df df c) < 192"
  shows "split_train_validation df = Inl TypeError \<and>
         (length (training_df df c) < 192 \<longrightarrow>
            sliding_window_sample_datapoints (training_df df c) = Inr PyEmptyList) \<and>
         (length (validation_df df c) < 192 \<longrightarrow>
            sliding_window_sample_datapoints (validation_df df c) = Inr PyEmptyList) \<and>
         (\<forall>d :: float64 Dataset. Dataset_add d PyEmptyList = Inr NotImplemented \<and>
            py_add d PyEmptyList = Inl TypeError)"
proof -
  let ?s = "Min (open_time ` set df)" and ?e = "Max (close_time ` set df)"
  have "c \<in> set (block_cursors ?s ?e)"
    using assms(4,5) by (simp add: block_cursors_def split_days)
  with assms(6) have
    "\<exists>c\<in>set (block_cursors ?s ?e).
        length (training_df df c) < 192 \<or> length (validation_df df c) < 192"
    by blast
  from fold_blocks_type_error[OF valid_shape_empty valid_shape_empty this]
  have "walk df ?e ?s empty_dataset empty_dataset = Inl TypeError"
    by (rule walk_fold_error[OF assms(2,3)])
  then show ?thesis
    by (simp add: split_nonempty[OF assms(1,2,3)] sliding_short Dataset_add_def py_add_list)
qed

theorem short_slice_type_error_witness:
  "datetime_range (Min (open_time ` set [synthetic_bar 900000 0, synthetic_bar 900000 2300])) \<and>
   datetime_range (Max (close_time ` set [synthetic_bar 900000 0, synthetic_bar 900000 2300])) \<and>
   split_train_validation [synthetic_bar 900000 0, synthetic_bar 900000 2300] = Inl TypeError \<and>
   length (training_df [synthetic_bar 900000 0, synthetic_bar 900000 2300] 0) = 1 \<and>
   sliding_window_sample_datapoints
     (training_df [synthetic_bar 900000 0, synthetic_bar 900000 2300] 0) = Inr PyEmptyList"
  using short_slice_type_error[of "[synthetic_bar 900000 0, synthetic_bar 900000 2300]" 0 0]
  by (simp add: synthetic_bar_def training_df_def training_days datetime_range_def)

end
